theory Spec2Isabelle
  imports Main
begin

section \<open>JSON values and Python dictionaries\<close>

text \<open>
  The tools of the Sprint Coordinator keep four JSON documents on disk and exchange JSON
  payloads with the reasoning engine. A JSON value is what \<^verbatim>\<open>json.load\<close> builds: \<^verbatim>\<open>None\<close>,
  a bool, an int, a float (kept here as its shortest decimal rendering, on which the
  tools never compute), a str, a list or a dict with str keys. A dict is an association
  list in insertion order, which is the order in which Python iterates and serialises it.
\<close>

datatype json =
    JNull
  | JBool bool
  | JInt int
  | JFloat string
  | JString string
  | JArray "json list"
  | JObject "(string \<times> json) list"

text \<open>\<^verbatim>\<open>d.get(k)\<close> on a dict, with \<open>None\<close> for an absent key.\<close>

fun dict_get :: "('k \<times> 'v) list \<Rightarrow> 'k \<Rightarrow> 'v option" where
  "dict_get [] k = None"
| "dict_get ((k', v) # d) k = (if k' = k then Some v else dict_get d k)"

text \<open>
  \<^verbatim>\<open>d[k] = v\<close>: an existing key keeps its position and takes the new value, a new key
  is appended.
\<close>

fun dict_set :: "'k \<Rightarrow> 'v \<Rightarrow> ('k \<times> 'v) list \<Rightarrow> ('k \<times> 'v) list" where
  "dict_set k v [] = [(k, v)]"
| "dict_set k v ((k', v') # d) = (if k' = k then (k, v) # d else (k', v') # dict_set k v d)"

text \<open>\<^verbatim>\<open>d.update(p)\<close>: the items of \<open>p\<close> are assigned into \<open>d\<close> one by one, in the order of \<open>p\<close>.\<close>

fun dict_update :: "('k \<times> 'v) list \<Rightarrow> ('k \<times> 'v) list \<Rightarrow> ('k \<times> 'v) list" where
  "dict_update d [] = d"
| "dict_update d ((k, v) # p) = dict_update (dict_set k v d) p"

text \<open>
  The exceptions that the dynamically typed code can raise on a document of an
  unexpected shape, and the one a session service raises for a session id in use.
\<close>

datatype exn = AttributeError | TypeError | KeyError | AlreadyExistsError

text \<open>
  \<^verbatim>\<open>x.get(k, default)\<close> exists on dicts only; on any other JSON value the attribute
  lookup raises.
\<close>

fun py_get :: "json \<Rightarrow> string \<Rightarrow> json \<Rightarrow> exn + json" where
  "py_get (JObject d) k dflt = Inr (case dict_get d k of None \<Rightarrow> dflt | Some v \<Rightarrow> v)"
| "py_get _ k dflt = Inl AttributeError"

text \<open>
  \<^verbatim>\<open>for x in v\<close>: a list yields its elements, a dict its keys, a str its characters;
  the other JSON values are not iterable.
\<close>

fun py_iter :: "json \<Rightarrow> exn + json list" where
  "py_iter (JArray xs) = Inr xs"
| "py_iter (JObject d) = Inr (map (\<lambda>kv. JString (fst kv)) d)"
| "py_iter (JString s) = Inr (map (\<lambda>c. JString [c]) s)"
| "py_iter _ = Inl TypeError"

section \<open>The document files\<close>

text \<open>
  The four configured paths of \<^verbatim>\<open>config.py\<close>. Reading a file with \<^verbatim>\<open>json.load\<close> has four
  outcomes, which is all the tools can tell about its content: the file is not there
  (\<^verbatim>\<open>FileNotFoundError\<close>), its text is not JSON (\<^verbatim>\<open>JSONDecodeError\<close>), it cannot be read
  for another reason, or it parses to a value.
\<close>

datatype path = SPRINTS_FILE | BMC_FILE | VPC_FILE | SEGMENTS_FILE

datatype file_state = Missing | Invalid | Unreadable | Content json

type_synonym disk = "path \<Rightarrow> file_state"

text \<open>\<^verbatim>\<open>_load_json_file\<close> of \<^verbatim>\<open>canvas_tools.py\<close>: every failure is logged and becomes \<open>{}\<close>.\<close>

definition load_json_file :: "disk \<Rightarrow> path \<Rightarrow> json" where
  "load_json_file fs file_path =
     (case fs file_path of
        Content v \<Rightarrow> v
      | Missing \<Rightarrow> JObject []
      | Invalid \<Rightarrow> JObject []
      | Unreadable \<Rightarrow> JObject [])"

text \<open>
  \<^verbatim>\<open>_load_sprints_data\<close> of \<^verbatim>\<open>sprint_tools.py\<close>: every failure becomes the empty sprints
  structure.
\<close>

definition load_sprints_data :: "disk \<Rightarrow> json" where
  "load_sprints_data fs =
     (case fs SPRINTS_FILE of
        Content v \<Rightarrow> v
      | Missing \<Rightarrow> JObject [(''sprints'', JArray []), (''sprint_analysis'', JObject [])]
      | Invalid \<Rightarrow> JObject [(''sprints'', JArray []), (''sprint_analysis'', JObject [])]
      | Unreadable \<Rightarrow> JObject [(''sprints'', JArray []), (''sprint_analysis'', JObject [])])"

text \<open>
  \<^verbatim>\<open>_save_json_file\<close> and \<^verbatim>\<open>_save_sprints_data\<close> write the serialised value to a temporary
  file and then replace the target with it. Whether that goes through is decided by the
  file system, so it is the argument \<open>w\<close>. When it does, the target holds the text of
  \<open>data\<close>, which \<^verbatim>\<open>json.load\<close> reads back as \<open>data\<close>; when it does not, the exception is
  caught, the target is as before and the result is \<open>False\<close>.
\<close>

definition save_json_file :: "bool \<Rightarrow> disk \<Rightarrow> path \<Rightarrow> json \<Rightarrow> bool \<times> disk" where
  "save_json_file w fs file_path data =
     (if w then (True, fs(file_path := Content data)) else (False, fs))"

definition save_sprints_data :: "bool \<Rightarrow> disk \<Rightarrow> json \<Rightarrow> bool \<times> disk" where
  "save_sprints_data w fs data =
     (if w then (True, fs(SPRINTS_FILE := Content data)) else (False, fs))"

text \<open>
  What a tool returns: \<open>Dumps v\<close> is the string \<^verbatim>\<open>json.dumps(v)\<close>; \<open>Caught m e\<close> is the
  payload of the outermost handler, \<^verbatim>\<open>json.dumps({"error": f"{m}: {str(e)}"})\<close>, for the
  exception \<open>e\<close>.
\<close>

datatype payload = Dumps json | Caught string exn

text \<open>The read tools.\<close>

definition get_sprint_items :: "disk \<Rightarrow> payload" where
  "get_sprint_items fs = Dumps (load_sprints_data fs)"

definition get_business_model_canvas :: "disk \<Rightarrow> payload" where
  "get_business_model_canvas fs = Dumps (load_json_file fs BMC_FILE)"

definition get_value_proposition_canvas :: "disk \<Rightarrow> payload" where
  "get_value_proposition_canvas fs = Dumps (load_json_file fs VPC_FILE)"

definition get_customer_segments :: "disk \<Rightarrow> payload" where
  "get_customer_segments fs = Dumps (load_json_file fs SEGMENTS_FILE)"


text \<open>\<^verbatim>\<open>isinstance(v, dict)\<close>, \<^verbatim>\<open>isinstance(v, list)\<close>, and the items of a value that is a dict.\<close>

fun is_dict :: "json \<Rightarrow> bool" where
  "is_dict (JObject d) = True"
| "is_dict _ = False"

fun is_list :: "json \<Rightarrow> bool" where
  "is_list (JArray xs) = True"
| "is_list _ = False"

fun items :: "json \<Rightarrow> (string \<times> json) list" where
  "items (JObject d) = d"
| "items _ = []"

text \<open>
  The loops below assign into the elements of a list that they reached through
  \<^verbatim>\<open>container.get(key, [])\<close>. When the key is there, that list is the container's own
  object, so the container holds the assigned elements afterwards; when it is not, the
  list was the fresh default and the container is as before.
\<close>

fun assigned_in :: "json \<Rightarrow> string \<Rightarrow> json list \<Rightarrow> json" where
  "assigned_in (JObject d) key elems =
     (case dict_get d key of
        Some (JArray xs) \<Rightarrow> JObject (dict_set key (JArray elems) d)
      | _ \<Rightarrow> JObject d)"
| "assigned_in v key elems = v"

text \<open>An f-string's \<^verbatim>\<open>'{s}'\<close>.\<close>

definition quoted :: "string \<Rightarrow> string" where
  "quoted s = [CHR 0x27] @ s @ [CHR 0x27]"

section \<open>Canvas tools\<close>

text \<open>
  Lines 86 to 96 of \<^verbatim>\<open>canvas_tools.py\<close>, which \<^verbatim>\<open>update_business_model_canvas\<close> and
  \<^verbatim>\<open>update_value_proposition_canvas\<close> share word for word: the section is created as
  \<open>{}\<close> when the document lacks it, then dict on dict is \<^verbatim>\<open>update\<close>, and everything else
  assigns the patch. A document that is not a dict makes \<^verbatim>\<open>section not in data\<close> or the
  subscript raise \<^verbatim>\<open>TypeError\<close>.
\<close>

fun apply_updates :: "json \<Rightarrow> string \<Rightarrow> json \<Rightarrow> exn + json" where
  "apply_updates (JObject d) section updates_dict =
     (let data = (case dict_get d section of
                    None \<Rightarrow> dict_set section (JObject []) d
                  | Some v \<Rightarrow> d)
      in case dict_get data section of
           None \<Rightarrow> Inl KeyError
         | Some cur \<Rightarrow>
             if is_dict cur \<and> is_dict updates_dict then
               Inr (JObject (dict_set section
                      (JObject (dict_update (items cur) (items updates_dict))) data))
             else if is_list cur \<and> is_list updates_dict then
               Inr (JObject (dict_set section updates_dict data))
             else
               Inr (JObject (dict_set section updates_dict data)))"
| "apply_updates v section updates_dict = Inl TypeError"

text \<open>
  The argument \<open>updates\<close> of the update tools is what \<^verbatim>\<open>json.loads\<close> makes of the string
  the engine passed: \<open>None\<close> when it raises \<^verbatim>\<open>JSONDecodeError\<close>, the parsed value
  otherwise.
\<close>

definition update_business_model_canvas ::
  "bool \<Rightarrow> disk \<Rightarrow> string \<Rightarrow> json option \<Rightarrow> payload \<times> disk" where
  "update_business_model_canvas w fs section updates =
     (let data = load_json_file fs BMC_FILE in
      case updates of
        None \<Rightarrow>
          (Dumps (JObject [(''error'', JString ''Invalid JSON format in updates parameter'')]), fs)
      | Some updates_dict \<Rightarrow>
          (case apply_updates data section updates_dict of
             Inl e \<Rightarrow> (Caught ''Failed to update Business Model Canvas'' e, fs)
           | Inr data' \<Rightarrow>
               (let (saved, fs') = save_json_file w fs BMC_FILE data' in
                if saved then
                  (Dumps (JObject
                     [(''success'', JBool True),
                      (''message'', JString (''Business Model Canvas section '' @ quoted section
                          @ '' updated successfully'')),
                      (''section'', JString section),
                      (''updates'', updates_dict)]), fs')
                else
                  (Dumps (JObject
                     [(''error'', JString ''Failed to save Business Model Canvas updates'')]),
                   fs'))))"

definition update_value_proposition_canvas ::
  "bool \<Rightarrow> disk \<Rightarrow> string \<Rightarrow> json option \<Rightarrow> payload \<times> disk" where
  "update_value_proposition_canvas w fs section updates =
     (let data = load_json_file fs VPC_FILE in
      case updates of
        None \<Rightarrow>
          (Dumps (JObject [(''error'', JString ''Invalid JSON format in updates parameter'')]), fs)
      | Some updates_dict \<Rightarrow>
          (case apply_updates data section updates_dict of
             Inl e \<Rightarrow> (Caught ''Failed to update Value Proposition Canvas'' e, fs)
           | Inr data' \<Rightarrow>
               (let (saved, fs') = save_json_file w fs VPC_FILE data' in
                if saved then
                  (Dumps (JObject
                     [(''success'', JBool True),
                      (''message'', JString (''Value Proposition Canvas section '' @ quoted section
                          @ '' updated successfully'')),
                      (''section'', JString section),
                      (''updates'', updates_dict)]), fs')
                else
                  (Dumps (JObject
                     [(''error'', JString ''Failed to save Value Proposition Canvas updates'')]),
                   fs'))))"

text \<open>
  The loop of \<^verbatim>\<open>update_customer_segments\<close> over the segments: \<open>Inr None\<close> when it ends
  with \<^verbatim>\<open>updated\<close> still false, \<open>Inr (Some segs)\<close> with the list after the assignment when
  it breaks, \<open>Inl e\<close> when \<^verbatim>\<open>segment.get\<close> raises on an element that is not a dict.
\<close>

fun update_segment :: "json list \<Rightarrow> string \<Rightarrow> json \<Rightarrow> exn + json list option" where
  "update_segment [] segment_id updates_dict = Inr None"
| "update_segment (segment # rest) segment_id updates_dict =
     (case py_get segment ''id'' JNull of
        Inl e \<Rightarrow> Inl e
      | Inr v \<Rightarrow>
          if v = JString segment_id then
            (if is_dict segment \<and> is_dict updates_dict then
               Inr (Some (JObject (dict_update (items segment) (items updates_dict)) # rest))
             else
               Inr (Some (updates_dict # rest)))
          else
            (case update_segment rest segment_id updates_dict of
               Inl e \<Rightarrow> Inl e
             | Inr None \<Rightarrow> Inr None
             | Inr (Some rest') \<Rightarrow> Inr (Some (segment # rest'))))"

definition update_customer_segments ::
  "bool \<Rightarrow> disk \<Rightarrow> string \<Rightarrow> json option \<Rightarrow> payload \<times> disk" where
  "update_customer_segments w fs segment_id updates =
     (let data = load_json_file fs SEGMENTS_FILE in
      case updates of
        None \<Rightarrow>
          (Dumps (JObject [(''error'', JString ''Invalid JSON format in updates parameter'')]), fs)
      | Some updates_dict \<Rightarrow>
          (case py_get data ''customer_segments'' (JArray []) of
             Inl e \<Rightarrow> (Caught ''Failed to update customer segments'' e, fs)
           | Inr segments \<Rightarrow>
               (case py_iter segments of
                  Inl e \<Rightarrow> (Caught ''Failed to update customer segments'' e, fs)
                | Inr segs \<Rightarrow>
                    (case update_segment segs segment_id updates_dict of
                       Inl e \<Rightarrow> (Caught ''Failed to update customer segments'' e, fs)
                     | Inr None \<Rightarrow>
                         (Dumps (JObject
                            [(''error'', JString (''Customer segment '' @ quoted segment_id
                                @ '' not found''))]), fs)
                     | Inr (Some segs') \<Rightarrow>
                         (let (saved, fs') =
                                save_json_file w fs SEGMENTS_FILE
                                  (assigned_in data ''customer_segments'' segs')
                          in if saved then
                               (Dumps (JObject
                                  [(''success'', JBool True),
                                   (''message'', JString (''Customer segment ''
                                       @ quoted segment_id @ '' updated successfully'')),
                                   (''segment_id'', JString segment_id),
                                   (''updates'', updates_dict)]), fs')
                             else
                               (Dumps (JObject
                                  [(''error'',
                                    JString ''Failed to save customer segments updates'')]),
                                fs'))))))"

section \<open>Sprint tools\<close>

definition valid_statuses :: "string list" where
  "valid_statuses = [''pending'', ''in_progress'', ''completed'']"

text \<open>
  The inner loop of \<^verbatim>\<open>update_sprint_item_status\<close>, over the items of one sprint, and the
  outer one, over the sprints. The results read as those of \<open>update_segment\<close>.
\<close>

fun update_item :: "json list \<Rightarrow> string \<Rightarrow> string \<Rightarrow> string \<Rightarrow> exn + json list option" where
  "update_item [] item_id status notes = Inr None"
| "update_item (item # rest) item_id status notes =
     (case py_get item ''item_id'' JNull of
        Inl e \<Rightarrow> Inl e
      | Inr v \<Rightarrow>
          if v = JString item_id then
            (let it = dict_set ''status'' (JString status) (items item)
             in Inr (Some (JObject (if notes \<noteq> [] then dict_set ''notes'' (JString notes) it
                                    else it) # rest)))
          else
            (case update_item rest item_id status notes of
               Inl e \<Rightarrow> Inl e
             | Inr None \<Rightarrow> Inr None
             | Inr (Some rest') \<Rightarrow> Inr (Some (item # rest'))))"

fun update_sprints :: "json list \<Rightarrow> string \<Rightarrow> string \<Rightarrow> string \<Rightarrow> exn + json list option" where
  "update_sprints [] item_id status notes = Inr None"
| "update_sprints (sprint # rest) item_id status notes =
     (case py_get sprint ''items'' (JArray []) of
        Inl e \<Rightarrow> Inl e
      | Inr listed \<Rightarrow>
          (case py_iter listed of
             Inl e \<Rightarrow> Inl e
           | Inr its \<Rightarrow>
               (case update_item its item_id status notes of
                  Inl e \<Rightarrow> Inl e
                | Inr (Some its') \<Rightarrow> Inr (Some (assigned_in sprint ''items'' its' # rest))
                | Inr None \<Rightarrow>
                    (case update_sprints rest item_id status notes of
                       Inl e \<Rightarrow> Inl e
                     | Inr None \<Rightarrow> Inr None
                     | Inr (Some rest') \<Rightarrow> Inr (Some (sprint # rest'))))))"

definition update_sprint_item_status ::
  "bool \<Rightarrow> disk \<Rightarrow> string \<Rightarrow> string \<Rightarrow> string \<Rightarrow> payload \<times> disk" where
  "update_sprint_item_status w fs item_id status notes =
     (let data = load_sprints_data fs in
      if status \<notin> set valid_statuses then
        (Dumps (JObject
           [(''error'', JString (''Invalid status '' @ quoted status
               @ ''. Must be one of: ['pending', 'in_progress', 'completed']''))]), fs)
      else
        (case py_get data ''sprints'' (JArray []) of
           Inl e \<Rightarrow> (Caught ''Failed to update sprint item status'' e, fs)
         | Inr listed \<Rightarrow>
             (case py_iter listed of
                Inl e \<Rightarrow> (Caught ''Failed to update sprint item status'' e, fs)
              | Inr sprints \<Rightarrow>
                  (case update_sprints sprints item_id status notes of
                     Inl e \<Rightarrow> (Caught ''Failed to update sprint item status'' e, fs)
                   | Inr None \<Rightarrow>
                       (Dumps (JObject
                          [(''error'', JString (''Sprint item '' @ quoted item_id
                              @ '' not found''))]), fs)
                   | Inr (Some sprints') \<Rightarrow>
                       (let (saved, fs') =
                              save_sprints_data w fs (assigned_in data ''sprints'' sprints')
                        in if saved then
                             (Dumps (JObject
                                [(''success'', JBool True),
                                 (''message'', JString (''Sprint item '' @ quoted item_id
                                     @ '' status updated to '' @ quoted status)),
                                 (''item_id'', JString item_id),
                                 (''status'', JString status),
                                 (''notes'', JString notes)]), fs')
                           else
                             (Dumps (JObject
                                [(''error'', JString ''Failed to save updated sprint data'')]),
                              fs'))))))"

text \<open>
  Names for the statements about \<^verbatim>\<open>update_sprint_item_status\<close>: the item after the two
  assignments of lines 116 to 118; an item that the comparison of line 115 accepts, an
  item record that it passes over, and a sprint record whose \<^verbatim>\<open>items\<close> list holds only
  such records; the items that the inner loop visits in a sprint.
\<close>

definition item_fields :: "string \<Rightarrow> string \<Rightarrow> (string \<times> json) list \<Rightarrow> (string \<times> json) list" where
  "item_fields status notes it =
     (if notes \<noteq> [] then dict_set ''notes'' (JString notes) (dict_set ''status'' (JString status) it)
      else dict_set ''status'' (JString status) it)"

fun matches :: "string \<Rightarrow> json \<Rightarrow> bool" where
  "matches item_id (JObject t) = (dict_get t ''item_id'' = Some (JString item_id))"
| "matches item_id x = False"

fun other_item :: "string \<Rightarrow> json \<Rightarrow> bool" where
  "other_item item_id (JObject t) = (dict_get t ''item_id'' \<noteq> Some (JString item_id))"
| "other_item item_id x = False"

fun sprint_without :: "string \<Rightarrow> json \<Rightarrow> bool" where
  "sprint_without item_id (JObject sp) =
     (case dict_get sp ''items'' of
        Some (JArray its) \<Rightarrow> list_all (other_item item_id) its
      | _ \<Rightarrow> False)"
| "sprint_without item_id x = False"

definition listed_items :: "json \<Rightarrow> json list" where
  "listed_items sprint =
     (case py_get sprint ''items'' (JArray []) of
        Inl e \<Rightarrow> []
      | Inr v \<Rightarrow> (case py_iter v of Inl e \<Rightarrow> [] | Inr xs \<Rightarrow> xs))"

section \<open>Sessions\<close>

text \<open>
  \<^verbatim>\<open>fastapi_app.py\<close> keeps the sessions it initialised in the module-level dict
  \<^verbatim>\<open>active_sessions\<close>, from session id to the session and its sprint item, and creates
  them through the session service of the agent framework. Of a session, the
  application reads and writes the id, the owner and the \<^verbatim>\<open>state\<close> dict.
\<close>

record session =
  session_id :: string
  app_name :: string
  user_id :: string
  state :: "(string \<times> json) list"

record entry =
  session :: session
  sprint_item_id :: string

text \<open>
  The server: the session service (\<open>None\<close> before the lifespan hook has run, the
  \<^verbatim>\<open>session_service is None\<close> of the source) and \<^verbatim>\<open>active_sessions\<close>. The service's own
  state has the type \<open>'svc\<close>.
\<close>

record 'svc server =
  session_service :: "'svc option"
  active_sessions :: "(string \<times> entry) list"

text \<open>The defaults of \<^verbatim>\<open>config.py\<close> for the two environment variables.\<close>

definition APP_NAME :: string where
  "APP_NAME = ''sprint_coordinator''"

definition DEFAULT_USER_ID :: string where
  "DEFAULT_USER_ID = ''user1234''"

text \<open>
  Every failure that leaves a handler is an \<^verbatim>\<open>HTTPException\<close>; the model keeps its status
  code.
\<close>

datatype http_exception = HTTPException nat

text \<open>
  \<^verbatim>\<open>session.state[key] = value\<close>: the state of a session is a plain dict, and the
  statements of lines 188 to 192 assign into it.
\<close>

definition assign_state :: "string \<Rightarrow> json \<Rightarrow> session \<Rightarrow> session" where
  "assign_state key v s = s\<lparr>state := dict_set key v (state s)\<rparr>"

text \<open>
  \<^verbatim>\<open>initialize_session\<close>. The service's \<^verbatim>\<open>create_session\<close> is the argument \<open>create\<close>: from
  the service's state, the application name, the user id and the session id to the
  exception it raises or the new session and the service's next state. The five
  assignments write into the state dict of the session it returned, and the session is
  then registered in \<^verbatim>\<open>active_sessions\<close>, over any entry of the same id.
\<close>

definition initialize_session ::
  "('svc \<Rightarrow> string \<Rightarrow> string \<Rightarrow> string \<Rightarrow> exn + session \<times> 'svc)
     \<Rightarrow> 'svc server \<Rightarrow> string \<Rightarrow> string \<Rightarrow> http_exception + session \<times> 'svc server" where
  "initialize_session create srv sid item =
     (case session_service srv of
        None \<Rightarrow> Inl (HTTPException 500)
      | Some svc \<Rightarrow>
          (case create svc APP_NAME DEFAULT_USER_ID sid of
             Inl e \<Rightarrow> Inl (HTTPException 500)
           | Inr (s0, svc') \<Rightarrow>
               (let s1 = assign_state ''current_sprint_item'' (JString item) s0;
                    s2 = assign_state ''current_phase'' (JString ''design'') s1;
                    s3 = assign_state ''phase_summaries'' (JObject []) s2;
                    s4 = assign_state ''user_preferences'' (JObject []) s3;
                    s5 = assign_state ''workflow_progress'' (JObject []) s4
                in Inr (s5, srv\<lparr>session_service := Some svc',
                                 active_sessions :=
                                   dict_set sid \<lparr>session = s5, sprint_item_id = item\<rparr>
                                     (active_sessions srv)\<rparr>))))"


text \<open>
  Lines 325 to 332 of \<^verbatim>\<open>websocket_chat\<close>, the other caller of \<^verbatim>\<open>initialize_session\<close>: the
  session is initialised only when its id is not in \<^verbatim>\<open>active_sessions\<close>. The result is the
  error text sent on the socket, if any, and the server afterwards.
\<close>

definition websocket_session ::
  "('svc \<Rightarrow> string \<Rightarrow> string \<Rightarrow> string \<Rightarrow> exn + session \<times> 'svc)
     \<Rightarrow> 'svc server \<Rightarrow> string \<Rightarrow> string \<Rightarrow> string option \<times> 'svc server" where
  "websocket_session create srv sid item =
     (if dict_get (active_sessions srv) sid = None then
        (case initialize_session create srv sid item of
           Inl e \<Rightarrow> (Some ''Error initializing session. Please try again.'', srv)
         | Inr (s, srv') \<Rightarrow> (None, srv'))
      else (None, srv))"

text \<open>
  Modelled from the spec: \<^verbatim>\<open>create_session\<close> of the session service, which is the agent
  framework's and not a file of the repository. Section 4.3 of the specification has
  the registry's \<open>create\<close> return the session and fail with AlreadyExists if the id is
  active. The service's state is the table of its sessions by id; a new session starts
  with an empty state dict.
\<close>

definition create_session ::
  "(string \<times> session) list \<Rightarrow> string \<Rightarrow> string \<Rightarrow> string
     \<Rightarrow> exn + session \<times> (string \<times> session) list" where
  "create_session svc app uid sid =
     (case dict_get svc sid of
        Some s \<Rightarrow> Inl AlreadyExistsError
      | None \<Rightarrow>
          (let s = \<lparr>session_id = sid, app_name = app, user_id = uid, state = []\<rparr>
           in Inr (s, dict_set sid s svc)))"

section \<open>The streaming relay\<close>

text \<open>
  What \<^verbatim>\<open>stream_agent_response_websocket\<close> reads of an event of the runner: its author,
  the parts of its content (\<open>None\<close> when the event has no content or the content no
  parts; of a part, its text, \<open>None\<close> when it has none), the \<^verbatim>\<open>partial\<close> flag and what
  \<^verbatim>\<open>is_final_response()\<close> answers.
\<close>

record event =
  author :: string
  parts :: "string option list option"
  partial :: bool
  is_final_response :: bool

text \<open>
  The condition of lines 244 to 248: the event is the coordinator's and the first part
  of its content has a text that is not empty.
\<close>

definition text_chunk :: "event \<Rightarrow> string option" where
  "text_chunk ev =
     (if author ev = ''sprint_coordinator'' then
        (case parts ev of
           None \<Rightarrow> None
         | Some [] \<Rightarrow> None
         | Some (None # ps) \<Rightarrow> None
         | Some (Some t # ps) \<Rightarrow> if t = [] then None else Some t)
      else None)"

text \<open>
  The loop over the events of one run. The run is the list of the events that the
  runner yields and how it ends: \<open>None\<close> when the generator is exhausted, \<open>Some e\<close> when
  it raises \<open>e\<close> after them. The result is the list of the texts sent on the socket, in
  the order of sending.
\<close>

fun relay :: "event list \<Rightarrow> exn option \<Rightarrow> string list" where
  "relay [] None = []"
| "relay [] (Some e) = [''Something went wrong. Please try again.'']"
| "relay (ev # evs) ending =
     (case text_chunk ev of
        None \<Rightarrow> relay evs ending
      | Some t \<Rightarrow>
          if partial ev then t # relay evs ending
          else if is_final_response ev then [''--streaming ended--'']
          else relay evs ending)"

definition stream_agent_response_websocket :: "bool \<Rightarrow> event list \<Rightarrow> exn option \<Rightarrow> string list" where
  "stream_agent_response_websocket initialized evs ending =
     (if \<not> initialized then [''Agent not initialized. Please try again.'']
      else relay evs ending)"

text \<open>The texts that end a turn for the client: the completion marker and the error messages.\<close>

definition terminal :: "string \<Rightarrow> bool" where
  "terminal m \<longleftrightarrow>
     m = ''--streaming ended--'' \<or> m = ''Something went wrong. Please try again.''
     \<or> m = ''Agent not initialized. Please try again.''"

section \<open>Sample documents\<close>

text \<open>Small documents and patches on which the theorems below are instantiated.\<close>

definition canvas_sample :: json where
  "canvas_sample = JObject
     [(''Key Partners'', JObject [(''suppliers'', JArray [JString ''Acme'']), (''count'', JInt 1)]),
      (''Channels'', JArray [JString ''web''])]"

definition disk_sample :: disk where
  "disk_sample = (\<lambda>p. Missing)(BMC_FILE := Content canvas_sample)"

definition segments_sample :: json where
  "segments_sample = JObject
     [(''customer_segments'', JArray
        [JObject [(''id'', JString ''seg_01''), (''archetype'', JString ''Founder'')],
         JObject [(''id'', JString ''seg_03''), (''archetype'', JString ''Student''),
                  (''pain_points'', JArray [JString ''cost''])]])]"

definition segments_disk :: disk where
  "segments_disk = (\<lambda>p. Missing)(SEGMENTS_FILE := Content segments_sample)"

definition onboarding_patch :: json where
  "onboarding_patch = JObject [(''pain_points'', JArray [JString ''slow onboarding''])]"

definition sprints_sample :: json where
  "sprints_sample = JObject
     [(''sprints'', JArray
        [JObject [(''sprint_id'', JString ''sprint_1''),
                  (''items'', JArray
                     [JObject [(''item_id'', JString ''s1_item_1''), (''status'', JString ''pending''),
                               (''notes'', JString ''first draft'')],
                      JObject [(''item_id'', JString ''s1_item_2''), (''status'', JString ''pending''),
                               (''notes'', JString ''call back'')]])],
         JObject [(''sprint_id'', JString ''sprint_2''),
                  (''items'', JArray
                     [JObject [(''item_id'', JString ''s1_item_2''), (''status'', JString ''pending'')]])]]),
      (''sprint_analysis'', JObject [(''velocity'', JInt 3)])]"

definition sprints_after :: json where
  "sprints_after = JObject
     [(''sprints'', JArray
        [JObject [(''sprint_id'', JString ''sprint_1''),
                  (''items'', JArray
                     [JObject [(''item_id'', JString ''s1_item_1''), (''status'', JString ''pending''),
                               (''notes'', JString ''first draft'')],
                      JObject [(''item_id'', JString ''s1_item_2''), (''status'', JString ''in_progress''),
                               (''notes'', JString ''call back'')]])],
         JObject [(''sprint_id'', JString ''sprint_2''),
                  (''items'', JArray
                     [JObject [(''item_id'', JString ''s1_item_2''), (''status'', JString ''pending'')]])]]),
      (''sprint_analysis'', JObject [(''velocity'', JInt 3)])]"

definition sprints_disk :: disk where
  "sprints_disk = (\<lambda>p. Missing)(SPRINTS_FILE := Content sprints_sample)"


text \<open>
  A run of the engine whose model response ends without a text: one streamed chunk of
  the coordinator, then its final event with no content.
\<close>

definition silent_turn :: "event list" where
  "silent_turn =
     [\<lparr>author = ''sprint_coordinator'', parts = Some [Some ''Working''], partial = True,
       is_final_response = False\<rparr>,
      \<lparr>author = ''sprint_coordinator'', parts = None, partial = False,
       is_final_response = True\<rparr>]"

text \<open>
  The session that \<^verbatim>\<open>initialize_session\<close> makes for the id \<open>s1\<close> and the item \<open>s1_item_1\<close>, and the
  sample server once that session is registered.
\<close>

definition session_sample :: session where
  "session_sample =
     \<lparr>session_id = ''s1'', app_name = ''sprint_coordinator'', user_id = ''user1234'',
      state = [(''current_sprint_item'', JString ''s1_item_1''),
               (''current_phase'', JString ''design''),
               (''phase_summaries'', JObject []),
               (''user_preferences'', JObject []),
               (''workflow_progress'', JObject [])]\<rparr>"

definition server_after :: "(string \<times> session) list server" where
  "server_after =
     \<lparr>session_service =
        Some [(''s1'', \<lparr>session_id = ''s1'', app_name = ''sprint_coordinator'',
                        user_id = ''user1234'', state = []\<rparr>)],
      active_sessions = [(''s1'', \<lparr>session = session_sample, sprint_item_id = ''s1_item_1''\<rparr>)]\<rparr>"


section \<open>Loading a document\<close>

text \<open>
  Claim C7. Loading never fails the caller. When the file behind a document is missing
  or does not hold JSON (or cannot be read at all), the sprints loader returns the empty
  sprints structure and the loader of the two canvases and of the segments returns the
  empty mapping; when the file holds a JSON value, each loader returns that value, the
  full document.
\<close>

theorem load_default_or_document:
  "load_sprints_data (fs(SPRINTS_FILE := Missing))
     = JObject [(''sprints'', JArray []), (''sprint_analysis'', JObject [])]
   \<and> load_sprints_data (fs(SPRINTS_FILE := Invalid))
     = JObject [(''sprints'', JArray []), (''sprint_analysis'', JObject [])]
   \<and> load_sprints_data (fs(SPRINTS_FILE := Unreadable))
     = JObject [(''sprints'', JArray []), (''sprint_analysis'', JObject [])]
   \<and> load_sprints_data (fs(SPRINTS_FILE := Content v)) = v
   \<and> load_json_file (fs(p := Missing)) p = JObject []
   \<and> load_json_file (fs(p := Invalid)) p = JObject []
   \<and> load_json_file (fs(p := Unreadable)) p = JObject []
   \<and> load_json_file (fs(p := Content v)) p = v"
  by (simp add: load_sprints_data_def load_json_file_def)

section \<open>Dictionaries\<close>

lemma dict_get_set: "dict_get (dict_set k v d) k' = (if k' = k then Some v else dict_get d k')"
  by (induction d) auto

lemma dict_set_twice: "dict_set k v (dict_set k v' d) = dict_set k v d"
  by (induction d) auto

lemma dict_get_None_iff: "dict_get d k = None \<longleftrightarrow> k \<notin> fst ` set d"
  by (induction d) (auto split: if_splits)

lemma dict_set_fresh: "k \<notin> fst ` set d \<Longrightarrow> dict_set k v d = d @ [(k, v)]"
  by (induction d) auto

lemma dict_get_update_notin: "k \<notin> fst ` set p \<Longrightarrow> dict_get (dict_update d p) k = dict_get d k"
  by (induction p arbitrary: d) (auto simp: dict_get_set)

lemma dict_get_update:
  "distinct (map fst p) \<Longrightarrow>
   dict_get (dict_update d p) k = (case dict_get p k of Some v \<Rightarrow> Some v | None \<Rightarrow> dict_get d k)"
proof (induction p arbitrary: d)
  case Nil
  then show ?case by simp
next
  case (Cons kv p)
  obtain k' v' where kv: "kv = (k', v')" by (cases kv)
  show ?case
  proof (cases "k' = k")
    case True
    with Cons.prems kv have "k \<notin> fst ` set p" by auto
    then show ?thesis using True kv by (simp add: dict_get_update_notin dict_get_set)
  next
    case False
    with Cons kv show ?thesis by (simp add: dict_get_set split: option.splits)
  qed
qed

lemma dict_update_append:
  "distinct (map fst p) \<Longrightarrow> fst ` set d \<inter> fst ` set p = {} \<Longrightarrow> dict_update d p = d @ p"
proof (induction p arbitrary: d)
  case Nil
  then show ?case by simp
next
  case (Cons kv p)
  obtain k v where kv: "kv = (k, v)" by (cases kv)
  from Cons.prems kv have fresh: "k \<notin> fst ` set d" by auto
  from Cons.prems kv have "fst ` set (d @ [(k, v)]) \<inter> fst ` set p = {}" by auto
  moreover from Cons.prems have "distinct (map fst p)" by simp
  ultimately have "dict_update (d @ [(k, v)]) p = (d @ [(k, v)]) @ p" by (rule Cons.IH[rotated])
  then show ?case using kv fresh by (simp add: dict_set_fresh)
qed

lemma dict_update_empty: "distinct (map fst p) \<Longrightarrow> dict_update [] p = p"
  using dict_update_append[of p "[]"] by simp

section \<open>Updating a canvas section\<close>

lemma apply_updates_value:
  "\<exists>new. apply_updates (JObject doc) key patch = Inr (JObject (dict_set key new doc)) \<and>
      new = (case dict_get doc key of
               Some (JObject old) \<Rightarrow>
                 (case patch of JObject p \<Rightarrow> JObject (dict_update old p) | _ \<Rightarrow> patch)
             | None \<Rightarrow> (case patch of JObject p \<Rightarrow> JObject (dict_update [] p) | _ \<Rightarrow> patch)
             | _ \<Rightarrow> patch)"
proof (cases "dict_get doc key")
  case None
  then show ?thesis
    by (cases patch) (simp_all add: dict_get_set dict_set_twice)
next
  case (Some cur)
  then show ?thesis
    by (cases cur; cases patch) (simp_all add: dict_get_set)
qed

lemma apply_updates_shape:
  assumes wf: "\<forall>p. patch = JObject p \<longrightarrow> distinct (map fst p)"
  shows "\<exists>doc'. apply_updates (JObject doc) key patch = Inr (JObject doc')
     \<and> (\<forall>k. k \<noteq> key \<longrightarrow> dict_get doc' k = dict_get doc k)
     \<and> (\<forall>old p. dict_get doc key = Some (JObject old) \<and> patch = JObject p \<longrightarrow>
          (\<exists>new. dict_get doc' key = Some (JObject new)
             \<and> (\<forall>k. dict_get new k
                    = (case dict_get p k of Some v \<Rightarrow> Some v | None \<Rightarrow> dict_get old k))))
     \<and> (\<forall>old p. dict_get doc key = Some (JArray old) \<and> patch = JArray p \<longrightarrow>
          dict_get doc' key = Some (JArray p))
     \<and> (\<not> (\<exists>old p. dict_get doc key = Some (JObject old) \<and> patch = JObject p) \<longrightarrow>
          dict_get doc' key = Some patch)"
proof -
  obtain new where run: "apply_updates (JObject doc) key patch = Inr (JObject (dict_set key new doc))"
    and new: "new = (case dict_get doc key of
               Some (JObject old) \<Rightarrow>
                 (case patch of JObject p \<Rightarrow> JObject (dict_update old p) | _ \<Rightarrow> patch)
             | None \<Rightarrow> (case patch of JObject p \<Rightarrow> JObject (dict_update [] p) | _ \<Rightarrow> patch)
             | _ \<Rightarrow> patch)"
    using apply_updates_value by blast
  let ?doc' = "dict_set key new doc"
  have frame: "\<forall>k. k \<noteq> key \<longrightarrow> dict_get ?doc' k = dict_get doc k"
    by (simp add: dict_get_set)
  have at_key: "dict_get ?doc' key = Some new"
    by (simp add: dict_get_set)
  have merged: "\<forall>old p. dict_get doc key = Some (JObject old) \<and> patch = JObject p \<longrightarrow>
          (\<exists>n. dict_get ?doc' key = Some (JObject n)
             \<and> (\<forall>k. dict_get n k
                    = (case dict_get p k of Some v \<Rightarrow> Some v | None \<Rightarrow> dict_get old k)))"
    using wf new at_key by (auto simp: dict_get_update)
  have replaced: "\<forall>old p. dict_get doc key = Some (JArray old) \<and> patch = JArray p \<longrightarrow>
          dict_get ?doc' key = Some (JArray p)"
    using new at_key by auto
  have verbatim: "\<not> (\<exists>old p. dict_get doc key = Some (JObject old) \<and> patch = JObject p) \<longrightarrow>
          dict_get ?doc' key = Some patch"
  proof
    assume other: "\<not> (\<exists>old p. dict_get doc key = Some (JObject old) \<and> patch = JObject p)"
    have "new = patch"
    proof (cases "dict_get doc key")
      case None
      then show ?thesis using new wf by (cases patch) (simp_all add: dict_update_empty)
    next
      case (Some cur)
      then show ?thesis using new other by (cases cur; cases patch) simp_all
    qed
    then show "dict_get ?doc' key = Some patch" using at_key by simp
  qed
  from run frame merged replaced verbatim show ?thesis by blast
qed

lemma bmc_run:
  assumes "load_json_file fs BMC_FILE = JObject doc"
    and "apply_updates (JObject doc) key patch = Inr (JObject doc')"
  shows "load_json_file (snd (update_business_model_canvas True fs key (Some patch))) BMC_FILE
           = JObject doc'
      \<and> (\<forall>f. f \<noteq> BMC_FILE \<longrightarrow> snd (update_business_model_canvas True fs key (Some patch)) f = fs f)"
  using assms
  by (simp add: update_business_model_canvas_def save_json_file_def load_json_file_def)

lemma vpc_run:
  assumes "load_json_file fs VPC_FILE = JObject doc"
    and "apply_updates (JObject doc) key patch = Inr (JObject doc')"
  shows "load_json_file (snd (update_value_proposition_canvas True fs key (Some patch))) VPC_FILE
           = JObject doc'
      \<and> (\<forall>f. f \<noteq> VPC_FILE \<longrightarrow> snd (update_value_proposition_canvas True fs key (Some patch)) f = fs f)"
  using assms
  by (simp add: update_value_proposition_canvas_def save_json_file_def load_json_file_def)

text \<open>
  Claim C1. Take either canvas tool with its file, a stored document that loads as a
  mapping (a missing or corrupt file loads as the empty one), any section key, and a
  patch as \<^verbatim>\<open>json.loads\<close> builds it, that is, with distinct keys when it is a mapping. After
  an update whose write goes through, loading the document gives a mapping in which
  every key other than the section has the value it had, and the section holds: the
  merge of the old mapping and the patch, patch first, when both are mappings; the
  patch when both are lists; and the patch verbatim in every case where they are not
  both mappings, the absent section included.
\<close>

theorem canvas_update_then_load:
  assumes tool: "(update, file) = (update_business_model_canvas, BMC_FILE)
               \<or> (update, file) = (update_value_proposition_canvas, VPC_FILE)"
    and doc: "load_json_file fs file = JObject doc"
    and wf: "distinct (map fst (items patch))"
  shows "\<exists>doc'. load_json_file (snd (update True fs key (Some patch))) file = JObject doc'
     \<and> (\<forall>k. k \<noteq> key \<longrightarrow> dict_get doc' k = dict_get doc k)
     \<and> (\<forall>old p. dict_get doc key = Some (JObject old) \<and> patch = JObject p \<longrightarrow>
          (\<exists>new. dict_get doc' key = Some (JObject new)
             \<and> (\<forall>k. dict_get new k
                    = (case dict_get p k of Some v \<Rightarrow> Some v | None \<Rightarrow> dict_get old k))))
     \<and> (\<forall>old p. dict_get doc key = Some (JArray old) \<and> patch = JArray p \<longrightarrow>
          dict_get doc' key = Some (JArray p))
     \<and> (\<not> (\<exists>old p. dict_get doc key = Some (JObject old) \<and> patch = JObject p) \<longrightarrow>
          dict_get doc' key = Some patch)"
proof -
  from wf have "\<forall>p. patch = JObject p \<longrightarrow> distinct (map fst p)" by auto
  from apply_updates_shape[OF this, of doc key]
  obtain doc' where run: "apply_updates (JObject doc) key patch = Inr (JObject doc')"
    and shape: "(\<forall>k. k \<noteq> key \<longrightarrow> dict_get doc' k = dict_get doc k)
     \<and> (\<forall>old p. dict_get doc key = Some (JObject old) \<and> patch = JObject p \<longrightarrow>
          (\<exists>new. dict_get doc' key = Some (JObject new)
             \<and> (\<forall>k. dict_get new k
                    = (case dict_get p k of Some v \<Rightarrow> Some v | None \<Rightarrow> dict_get old k))))
     \<and> (\<forall>old p. dict_get doc key = Some (JArray old) \<and> patch = JArray p \<longrightarrow>
          dict_get doc' key = Some (JArray p))
     \<and> (\<not> (\<exists>old p. dict_get doc key = Some (JObject old) \<and> patch = JObject p) \<longrightarrow>
          dict_get doc' key = Some patch)"
    by blast
  have "load_json_file (snd (update True fs key (Some patch))) file = JObject doc'"
    using tool doc run bmc_run[of fs doc key patch doc'] vpc_run[of fs doc key patch doc']
    by auto
  with shape show ?thesis by blast
qed

text \<open>
  The theorem at a canvas with a mapping under \<open>Key Partners\<close> and a list under \<open>Channels\<close>:
  the patch overwrites \<open>count\<close>, adds \<open>regions\<close>, and keeps \<open>suppliers\<close> and \<open>Channels\<close>.
\<close>

theorem canvas_update_then_load_witness:
  "load_json_file disk_sample BMC_FILE = canvas_sample
   \<and> distinct (map fst (items (JObject [(''count'', JInt 2), (''regions'', JArray [])])))
   \<and> load_json_file
        (snd (update_business_model_canvas True disk_sample ''Key Partners''
               (Some (JObject [(''count'', JInt 2), (''regions'', JArray [])])))) BMC_FILE
      = JObject
         [(''Key Partners'', JObject [(''suppliers'', JArray [JString ''Acme'']), (''count'', JInt 2),
                                      (''regions'', JArray [])]),
          (''Channels'', JArray [JString ''web''])]
   \<and> (\<exists>doc'. load_json_file
        (snd (update_business_model_canvas True disk_sample ''Key Partners''
               (Some (JObject [(''count'', JInt 2), (''regions'', JArray [])])))) BMC_FILE
          = JObject doc'
        \<and> dict_get doc' ''Channels'' = Some (JArray [JString ''web'']))"
proof -
  have doc: "load_json_file disk_sample BMC_FILE = JObject
     [(''Key Partners'', JObject [(''suppliers'', JArray [JString ''Acme'']), (''count'', JInt 1)]),
      (''Channels'', JArray [JString ''web''])]"
    by (simp add: load_json_file_def disk_sample_def canvas_sample_def)
  have wf: "distinct (map fst (items (JObject [(''count'', JInt 2), (''regions'', JArray [])])))"
    by simp
  have tool: "(update_business_model_canvas, BMC_FILE) = (update_business_model_canvas, BMC_FILE)
               \<or> (update_business_model_canvas, BMC_FILE) = (update_value_proposition_canvas, VPC_FILE)"
    by simp
  have run: "load_json_file
        (snd (update_business_model_canvas True disk_sample ''Key Partners''
               (Some (JObject [(''count'', JInt 2), (''regions'', JArray [])])))) BMC_FILE
      = JObject
         [(''Key Partners'', JObject [(''suppliers'', JArray [JString ''Acme'']), (''count'', JInt 2),
                                      (''regions'', JArray [])]),
          (''Channels'', JArray [JString ''web''])]"
    by (simp add: update_business_model_canvas_def save_json_file_def load_json_file_def
        disk_sample_def canvas_sample_def)
  from canvas_update_then_load[OF tool doc wf, of "''Key Partners''"]
  obtain doc' where "load_json_file
        (snd (update_business_model_canvas True disk_sample ''Key Partners''
               (Some (JObject [(''count'', JInt 2), (''regions'', JArray [])])))) BMC_FILE
          = JObject doc'"
    and "\<forall>k. k \<noteq> ''Key Partners'' \<longrightarrow> dict_get doc' k
       = dict_get [(''Key Partners'', JObject [(''suppliers'', JArray [JString ''Acme'']), (''count'', JInt 1)]),
      (''Channels'', JArray [JString ''web''])] k"
    by blast
  then have "\<exists>doc'. load_json_file
        (snd (update_business_model_canvas True disk_sample ''Key Partners''
               (Some (JObject [(''count'', JInt 2), (''regions'', JArray [])])))) BMC_FILE
          = JObject doc'
        \<and> dict_get doc' ''Channels'' = Some (JArray [JString ''web''])"
    by force
  with doc wf run show ?thesis by (simp add: canvas_sample_def)
qed

section \<open>Updating a customer segment\<close>

lemma id_matches:
  "py_get (JObject t) key JNull = Inr v \<Longrightarrow> v = JString sid \<longleftrightarrow> dict_get t key = Some (JString sid)"
  by (auto split: option.splits)

lemma update_segment_found:
  assumes "i < length segs" and "segs ! i = JObject s"
    and "dict_get s ''id'' = Some (JString sid)"
    and "\<forall>j<i. \<exists>t. segs ! j = JObject t \<and> dict_get t ''id'' \<noteq> Some (JString sid)"
  shows "update_segment segs sid u
       = Inr (Some (segs[i := (if is_dict u then JObject (dict_update s (items u)) else u)]))"
  using assms
proof (induction segs arbitrary: i)
  case Nil
  then show ?case by simp
next
  case (Cons x xs)
  show ?case
  proof (cases i)
    case 0
    with Cons.prems show ?thesis by simp
  next
    case (Suc n)
    from Cons.prems(4) Suc obtain t where x: "x = JObject t"
      and nx: "dict_get t ''id'' \<noteq> Some (JString sid)"
      by (metis nth_Cons_0 zero_less_Suc)
    have earlier: "\<forall>j<n. \<exists>t. xs ! j = JObject t \<and> dict_get t ''id'' \<noteq> Some (JString sid)"
    proof (intro allI impI)
      fix j assume "j < n"
      then have "Suc j < i" using Suc by simp
      with Cons.prems(4) show "\<exists>t. xs ! j = JObject t \<and> dict_get t ''id'' \<noteq> Some (JString sid)"
        by fastforce
    qed
    have "update_segment xs sid u
       = Inr (Some (xs[n := (if is_dict u then JObject (dict_update s (items u)) else u)]))"
      using Cons.IH[of n] Cons.prems Suc earlier by simp
    then show ?thesis using x nx Suc by (auto split: option.splits)
  qed
qed

lemma update_segment_absent:
  assumes "\<forall>x\<in>set segs. \<exists>t. x = JObject t \<and> dict_get t ''id'' \<noteq> Some (JString sid)"
  shows "update_segment segs sid u = Inr None"
  using assms
proof (induction segs)
  case Nil
  then show ?case by simp
next
  case (Cons x xs)
  then obtain t where "x = JObject t" "dict_get t ''id'' \<noteq> Some (JString sid)" by auto
  with Cons show ?case by (auto split: option.splits)
qed

lemma segments_run:
  assumes "load_json_file fs SEGMENTS_FILE = JObject doc"
    and "dict_get doc ''customer_segments'' = Some (JArray segs)"
    and "update_segment segs sid u = Inr (Some segs')"
  shows "update_customer_segments True fs sid (Some u) =
     (Dumps (JObject
        [(''success'', JBool True),
         (''message'', JString (''Customer segment '' @ quoted sid @ '' updated successfully'')),
         (''segment_id'', JString sid),
         (''updates'', u)]),
      fs(SEGMENTS_FILE := Content (JObject (dict_set ''customer_segments'' (JArray segs') doc))))"
  using assms by (simp add: update_customer_segments_def save_json_file_def)

lemma segments_not_found:
  assumes "load_json_file fs SEGMENTS_FILE = JObject doc"
    and "dict_get doc ''customer_segments'' = Some (JArray segs)"
    and "update_segment segs sid u = Inr None"
  shows "update_customer_segments w fs sid (Some u) =
     (Dumps (JObject [(''error'', JString (''Customer segment '' @ quoted sid @ '' not found''))]), fs)"
  using assms by (simp add: update_customer_segments_def)

text \<open>
  Claim C3 says that the update returns the full updated record. On the example of the
  specification, the patch \<open>{"pain_points": ["slow onboarding"]}\<close> for \<open>seg_03\<close>, the tool
  stores the merged record and returns the success payload with the segment id and the
  patch, which is not that record.
\<close>

theorem segment_update_returns_echo_not_record:
  "fst (update_customer_segments True segments_disk ''seg_03'' (Some onboarding_patch))
     = Dumps (JObject
        [(''success'', JBool True),
         (''message'', JString ''Customer segment 'seg_03' updated successfully''),
         (''segment_id'', JString ''seg_03''),
         (''updates'', onboarding_patch)])
   \<and> load_json_file
        (snd (update_customer_segments True segments_disk ''seg_03'' (Some onboarding_patch)))
        SEGMENTS_FILE
     = JObject
        [(''customer_segments'', JArray
           [JObject [(''id'', JString ''seg_01''), (''archetype'', JString ''Founder'')],
            JObject [(''id'', JString ''seg_03''), (''archetype'', JString ''Student''),
                     (''pain_points'', JArray [JString ''slow onboarding''])]])]
   \<and> fst (update_customer_segments True segments_disk ''seg_03'' (Some onboarding_patch))
     \<noteq> Dumps (JObject [(''id'', JString ''seg_03''), (''archetype'', JString ''Student''),
                       (''pain_points'', JArray [JString ''slow onboarding''])])"
  by (simp add: update_customer_segments_def save_json_file_def load_json_file_def
      segments_disk_def segments_sample_def onboarding_patch_def quoted_def)

text \<open>
  Claim C3, as amended. On a segments document whose \<open>customer_segments\<close> is a list, for
  every segment id and every mapping patch (with distinct keys): if the list has a record
  with that id, and the elements before the first such record are records with another
  id, the update merges the patch into that first record (the patch wins, the record's
  other fields keep their values), leaves every other element and every other
  top-level key as it was, and returns the success payload that echoes the id and the
  patch; if all elements are records with another id, it returns the error payload
  saying that the segment was not found, and the files are unchanged.
\<close>

theorem segment_update_by_identity:
  assumes doc: "load_json_file fs SEGMENTS_FILE = JObject doc"
    and segs: "dict_get doc ''customer_segments'' = Some (JArray segs)"
    and wf: "distinct (map fst p)"
  shows "(\<forall>i s. i < length segs \<and> segs ! i = JObject s
            \<and> dict_get s ''id'' = Some (JString sid)
            \<and> (\<forall>j<i. \<exists>t. segs ! j = JObject t \<and> dict_get t ''id'' \<noteq> Some (JString sid)) \<longrightarrow>
          update_customer_segments True fs sid (Some (JObject p)) =
            (Dumps (JObject
               [(''success'', JBool True),
                (''message'', JString (''Customer segment '' @ quoted sid
                    @ '' updated successfully'')),
                (''segment_id'', JString sid),
                (''updates'', JObject p)]),
             fs(SEGMENTS_FILE := Content (JObject (dict_set ''customer_segments''
                  (JArray (segs[i := JObject (dict_update s p)])) doc))))
          \<and> (\<forall>k. dict_get (dict_update s p) k
                 = (case dict_get p k of Some v \<Rightarrow> Some v | None \<Rightarrow> dict_get s k)))
       \<and> ((\<forall>x\<in>set segs. \<exists>t. x = JObject t \<and> dict_get t ''id'' \<noteq> Some (JString sid)) \<longrightarrow>
          update_customer_segments w fs sid (Some (JObject p)) =
            (Dumps (JObject
               [(''error'', JString (''Customer segment '' @ quoted sid @ '' not found''))]), fs))"
proof (intro conjI allI impI)
  fix i s
  assume hit: "i < length segs \<and> segs ! i = JObject s
            \<and> dict_get s ''id'' = Some (JString sid)
            \<and> (\<forall>j<i. \<exists>t. segs ! j = JObject t \<and> dict_get t ''id'' \<noteq> Some (JString sid))"
  then have "update_segment segs sid (JObject p) = Inr (Some (segs[i := JObject (dict_update s p)]))"
    using update_segment_found[of i segs s sid "JObject p"] by simp
  from segments_run[OF doc segs this]
  show "update_customer_segments True fs sid (Some (JObject p)) =
            (Dumps (JObject
               [(''success'', JBool True),
                (''message'', JString (''Customer segment '' @ quoted sid
                    @ '' updated successfully'')),
                (''segment_id'', JString sid),
                (''updates'', JObject p)]),
             fs(SEGMENTS_FILE := Content (JObject (dict_set ''customer_segments''
                  (JArray (segs[i := JObject (dict_update s p)])) doc))))" .
  fix k
  show "dict_get (dict_update s p) k
                 = (case dict_get p k of Some v \<Rightarrow> Some v | None \<Rightarrow> dict_get s k)"
    using wf by (rule dict_get_update)
next
  assume "\<forall>x\<in>set segs. \<exists>t. x = JObject t \<and> dict_get t ''id'' \<noteq> Some (JString sid)"
  then have "update_segment segs sid (JObject p) = Inr None"
    by (rule update_segment_absent)
  from segments_not_found[OF doc segs this]
  show "update_customer_segments w fs sid (Some (JObject p)) =
            (Dumps (JObject
               [(''error'', JString (''Customer segment '' @ quoted sid @ '' not found''))]), fs)" .
qed

text \<open>
  Claim C10. When the patch is well-formed JSON but not a mapping, the first record
  whose id matches is replaced by the patch itself, so all of its fields, the id
  included, are gone from the stored list, and the tool still returns the success
  payload.
\<close>

theorem segment_replaced_by_other_patch:
  assumes doc: "load_json_file fs SEGMENTS_FILE = JObject doc"
    and segs: "dict_get doc ''customer_segments'' = Some (JArray segs)"
    and shape: "\<not> is_dict patch"
    and i: "i < length segs" and s: "segs ! i = JObject s"
    and sid: "dict_get s ''id'' = Some (JString sid)"
    and first: "\<forall>j<i. \<exists>t. segs ! j = JObject t \<and> dict_get t ''id'' \<noteq> Some (JString sid)"
  shows "update_customer_segments True fs sid (Some patch) =
            (Dumps (JObject
               [(''success'', JBool True),
                (''message'', JString (''Customer segment '' @ quoted sid
                    @ '' updated successfully'')),
                (''segment_id'', JString sid),
                (''updates'', patch)]),
             fs(SEGMENTS_FILE := Content (JObject (dict_set ''customer_segments''
                  (JArray (segs[i := patch])) doc))))"
proof -
  have "update_segment segs sid patch = Inr (Some (segs[i := patch]))"
    using update_segment_found[OF i s sid first, of patch] shape by simp
  from segments_run[OF doc segs this] show ?thesis .
qed

text \<open>
  The amended C3 on the sample document: \<open>seg_03\<close> is the second record and gets the new
  \<open>pain_points\<close>; \<open>seg_99\<close> is not found.
\<close>

theorem segment_update_by_identity_witness:
  "load_json_file segments_disk SEGMENTS_FILE = segments_sample
   \<and> distinct (map fst [(''pain_points'', JArray [JString ''slow onboarding''])])
   \<and> update_customer_segments True segments_disk ''seg_03'' (Some onboarding_patch)
     = (Dumps (JObject
          [(''success'', JBool True),
           (''message'', JString ''Customer segment 'seg_03' updated successfully''),
           (''segment_id'', JString ''seg_03''),
           (''updates'', onboarding_patch)]),
        segments_disk(SEGMENTS_FILE := Content (JObject
          [(''customer_segments'', JArray
             [JObject [(''id'', JString ''seg_01''), (''archetype'', JString ''Founder'')],
              JObject [(''id'', JString ''seg_03''), (''archetype'', JString ''Student''),
                       (''pain_points'', JArray [JString ''slow onboarding''])]])])))
   \<and> update_customer_segments True segments_disk ''seg_99'' (Some onboarding_patch)
     = (Dumps (JObject [(''error'', JString ''Customer segment 'seg_99' not found'')]),
        segments_disk)"
proof -
  let ?segs = "[JObject [(''id'', JString ''seg_01''), (''archetype'', JString ''Founder'')],
         JObject [(''id'', JString ''seg_03''), (''archetype'', JString ''Student''),
                  (''pain_points'', JArray [JString ''cost''])]]"
  let ?p = "[(''pain_points'', JArray [JString ''slow onboarding''])]"
  have doc: "load_json_file segments_disk SEGMENTS_FILE = JObject [(''customer_segments'', JArray ?segs)]"
    by (simp add: load_json_file_def segments_disk_def segments_sample_def)
  have segs: "dict_get [(''customer_segments'', JArray ?segs)] ''customer_segments'' = Some (JArray ?segs)"
    by simp
  have wf: "distinct (map fst ?p)" by simp
  have hit: "(1::nat) < length ?segs \<and> ?segs ! 1 = JObject [(''id'', JString ''seg_03''), (''archetype'', JString ''Student''),
                  (''pain_points'', JArray [JString ''cost''])]
      \<and> dict_get [(''id'', JString ''seg_03''), (''archetype'', JString ''Student''),
                  (''pain_points'', JArray [JString ''cost''])] ''id'' = Some (JString ''seg_03'')
      \<and> (\<forall>j<1. \<exists>t. ?segs ! j = JObject t \<and> dict_get t ''id'' \<noteq> Some (JString ''seg_03''))"
    by simp
  have miss: "\<forall>x\<in>set ?segs. \<exists>t. x = JObject t \<and> dict_get t ''id'' \<noteq> Some (JString ''seg_99'')"
    by simp
  have found: "update_customer_segments True segments_disk ''seg_03'' (Some (JObject ?p))
     = (Dumps (JObject
          [(''success'', JBool True),
           (''message'', JString (''Customer segment '' @ quoted ''seg_03'' @ '' updated successfully'')),
           (''segment_id'', JString ''seg_03''),
           (''updates'', JObject ?p)]),
        segments_disk(SEGMENTS_FILE := Content (JObject (dict_set ''customer_segments''
          (JArray (?segs[1 := JObject (dict_update [(''id'', JString ''seg_03''), (''archetype'', JString ''Student''),
                  (''pain_points'', JArray [JString ''cost''])] ?p)])) [(''customer_segments'', JArray ?segs)]))))"
    using segment_update_by_identity[OF doc segs wf, of "''seg_03''"] hit by blast
  have absent: "update_customer_segments True segments_disk ''seg_99'' (Some (JObject ?p))
     = (Dumps (JObject [(''error'', JString (''Customer segment '' @ quoted ''seg_99'' @ '' not found''))]),
        segments_disk)"
    using segment_update_by_identity[OF doc segs wf, of "''seg_99''" True] miss by blast
  from doc wf found absent show ?thesis
    by (simp add: segments_sample_def onboarding_patch_def quoted_def)
qed

text \<open>C10 on the sample document, with a list as the patch.\<close>

theorem segment_replaced_by_other_patch_witness:
  "load_json_file segments_disk SEGMENTS_FILE = segments_sample
   \<and> \<not> is_dict (JArray [JString ''retired''])
   \<and> update_customer_segments True segments_disk ''seg_03'' (Some (JArray [JString ''retired'']))
     = (Dumps (JObject
          [(''success'', JBool True),
           (''message'', JString ''Customer segment 'seg_03' updated successfully''),
           (''segment_id'', JString ''seg_03''),
           (''updates'', JArray [JString ''retired''])]),
        segments_disk(SEGMENTS_FILE := Content (JObject
          [(''customer_segments'', JArray
             [JObject [(''id'', JString ''seg_01''), (''archetype'', JString ''Founder'')],
              JArray [JString ''retired'']])])))"
proof -
  let ?segs = "[JObject [(''id'', JString ''seg_01''), (''archetype'', JString ''Founder'')],
         JObject [(''id'', JString ''seg_03''), (''archetype'', JString ''Student''),
                  (''pain_points'', JArray [JString ''cost''])]]"
  let ?s = "[(''id'', JString ''seg_03''), (''archetype'', JString ''Student''),
                  (''pain_points'', JArray [JString ''cost''])]"
  have doc: "load_json_file segments_disk SEGMENTS_FILE = JObject [(''customer_segments'', JArray ?segs)]"
    by (simp add: load_json_file_def segments_disk_def segments_sample_def)
  have segs: "dict_get [(''customer_segments'', JArray ?segs)] ''customer_segments'' = Some (JArray ?segs)"
    by simp
  have shape: "\<not> is_dict (JArray [JString ''retired''])" by simp
  have i: "(1::nat) < length ?segs" by simp
  have s: "?segs ! 1 = JObject ?s" by simp
  have sid: "dict_get ?s ''id'' = Some (JString ''seg_03'')" by simp
  have first: "\<forall>j<1. \<exists>t. ?segs ! j = JObject t \<and> dict_get t ''id'' \<noteq> Some (JString ''seg_03'')"
    by simp
  from segment_replaced_by_other_patch[OF doc segs shape i s sid first] doc shape
  show ?thesis
    by (simp add: segments_sample_def quoted_def)
qed

section \<open>Updating the status of a sprint item\<close>

lemma update_item_Some:
  "update_item its iid status notes = Inr (Some its') \<Longrightarrow>
   \<exists>j it. j < length its \<and> its ! j = JObject it
      \<and> dict_get it ''item_id'' = Some (JString iid)
      \<and> (\<forall>j'<j. \<not> matches iid (its ! j'))
      \<and> its' = its[j := JObject (item_fields status notes it)]"
proof (induction its arbitrary: its')
  case Nil
  then show ?case by simp
next
  case (Cons x xs)
  from Cons.prems obtain t where x: "x = JObject t"
    by (cases x) simp_all
  show ?case
  proof (cases "dict_get t ''item_id'' = Some (JString iid)")
    case True
    with Cons.prems x have "its' = (x # xs)[0 := JObject (item_fields status notes t)]"
      by (auto simp: item_fields_def Let_def)
    with True x show ?thesis by (intro exI[of _ 0] exI[of _ t]) simp
  next
    case False
    with Cons.prems x obtain r where r: "update_item xs iid status notes = Inr (Some r)"
      and its': "its' = x # r"
      by (auto split: option.splits sum.splits if_splits)
    from Cons.IH[OF r] obtain j it where j: "j < length xs" "xs ! j = JObject it"
      "dict_get it ''item_id'' = Some (JString iid)" "\<forall>j'<j. \<not> matches iid (xs ! j')"
      "r = xs[j := JObject (item_fields status notes it)]"
      by blast
    have nx: "\<not> matches iid x" using False x by simp
    have "\<forall>j'<Suc j. \<not> matches iid ((x # xs) ! j')"
    proof (intro allI impI)
      fix j' assume "j' < Suc j"
      then show "\<not> matches iid ((x # xs) ! j')" using nx j(4) by (cases j') auto
    qed
    with j its' show ?thesis
      by (intro exI[of _ "Suc j"] exI[of _ it]) simp
  qed
qed

lemma update_item_None:
  "update_item its iid status notes = Inr None \<Longrightarrow> \<forall>x\<in>set its. \<not> matches iid x"
proof (induction its)
  case Nil
  then show ?case by simp
next
  case (Cons x xs)
  from Cons.prems obtain t where x: "x = JObject t"
    by (cases x) simp_all
  from Cons.prems x have nx: "dict_get t ''item_id'' \<noteq> Some (JString iid)"
    by (auto split: option.splits if_splits simp: Let_def)
  with Cons.prems x have "update_item xs iid status notes = Inr None"
    by (auto split: option.splits sum.splits if_splits)
  with Cons.IH nx x show ?case by simp
qed

lemma py_iter_with_dict:
  assumes "py_iter v = Inr xs" and "j < length xs" and "xs ! j = JObject t"
  shows "v = JArray xs"
  using assms by (cases v) auto

lemma py_get_listing:
  assumes "py_get c key (JArray []) = Inr (JArray xs)" and "xs \<noteq> []"
  shows "\<exists>d. c = JObject d \<and> dict_get d key = Some (JArray xs)"
  using assms by (cases c) (auto split: option.splits)

lemma listing_of_container:
  assumes get: "py_get c key (JArray []) = Inr v" and iter: "py_iter v = Inr xs"
    and j: "j < length xs" and t: "xs ! j = JObject t"
  shows "\<exists>d. c = JObject d \<and> dict_get d key = Some (JArray xs)
          \<and> (\<forall>ys. assigned_in c key ys = JObject (dict_set key (JArray ys) d))"
proof -
  from py_iter_with_dict[OF iter j t] have v: "v = JArray xs" .
  from j have "xs \<noteq> []" by auto
  with get v obtain d where d: "c = JObject d" "dict_get d key = Some (JArray xs)"
    using py_get_listing by blast
  then show ?thesis by simp
qed

lemma update_sprints_Some:
  "update_sprints sps iid status notes = Inr (Some sps') \<Longrightarrow>
   \<exists>i sp its j it. i < length sps \<and> sps ! i = JObject sp
      \<and> dict_get sp ''items'' = Some (JArray its)
      \<and> j < length its \<and> its ! j = JObject it
      \<and> dict_get it ''item_id'' = Some (JString iid)
      \<and> (\<forall>i'<i. \<forall>x\<in>set (listed_items (sps ! i')). \<not> matches iid x)
      \<and> (\<forall>j'<j. \<not> matches iid (its ! j'))
      \<and> sps' = sps[i := JObject (dict_set ''items''
                    (JArray (its[j := JObject (item_fields status notes it)])) sp)]"
proof (induction sps arbitrary: sps')
  case Nil
  then show ?case by simp
next
  case (Cons x xs)
  from Cons.prems obtain v its0 where get: "py_get x ''items'' (JArray []) = Inr v"
    and iter: "py_iter v = Inr its0"
    by (auto split: sum.splits)
  have listed: "listed_items x = its0" using get iter by (simp add: listed_items_def)
  from Cons.prems get iter obtain res where inner: "update_item its0 iid status notes = Inr res"
    by (auto split: sum.splits)
  show ?case
  proof (cases res)
    case (Some its')
    with Cons.prems get iter inner have sps': "sps' = assigned_in x ''items'' its' # xs"
      by simp
    from update_item_Some[OF inner[unfolded Some]]
    obtain j it where j: "j < length its0" "its0 ! j = JObject it"
      "dict_get it ''item_id'' = Some (JString iid)" "\<forall>j'<j. \<not> matches iid (its0 ! j')"
      "its' = its0[j := JObject (item_fields status notes it)]"
      by blast
    from listing_of_container[OF get iter j(1) j(2)]
    obtain sp where sp: "x = JObject sp" "dict_get sp ''items'' = Some (JArray its0)"
      "assigned_in x ''items'' its' = JObject (dict_set ''items'' (JArray its') sp)"
      by blast
    show ?thesis
      using sp j sps'
      by (intro exI[of _ 0] exI[of _ sp] exI[of _ its0] exI[of _ j] exI[of _ it]) simp
  next
    case None
    with Cons.prems get iter inner obtain r where r: "update_sprints xs iid status notes = Inr (Some r)"
      and sps': "sps' = x # r"
      by (auto split: sum.splits option.splits)
    from update_item_None[OF inner[unfolded None]] listed
    have nx: "\<forall>y\<in>set (listed_items x). \<not> matches iid y" by simp
    from Cons.IH[OF r] obtain i sp its j it where h: "i < length xs" "xs ! i = JObject sp"
      "dict_get sp ''items'' = Some (JArray its)" "j < length its" "its ! j = JObject it"
      "dict_get it ''item_id'' = Some (JString iid)"
      "\<forall>i'<i. \<forall>y\<in>set (listed_items (xs ! i')). \<not> matches iid y"
      "\<forall>j'<j. \<not> matches iid (its ! j')"
      "r = xs[i := JObject (dict_set ''items''
                    (JArray (its[j := JObject (item_fields status notes it)])) sp)]"
      by blast
    have earlier: "\<forall>i'<Suc i. \<forall>y\<in>set (listed_items ((x # xs) ! i')). \<not> matches iid y"
    proof (intro allI impI)
      fix i' assume "i' < Suc i"
      then show "\<forall>y\<in>set (listed_items ((x # xs) ! i')). \<not> matches iid y"
        using nx h(7) by (cases i') auto
    qed
    show ?thesis
      using h(1-6) h(8) h(9) earlier sps'
      by (intro exI[of _ "Suc i"] exI[of _ sp] exI[of _ its] exI[of _ j] exI[of _ it]) simp
  qed
qed

lemma item_fields_status: "dict_get (item_fields status notes it) ''status'' = Some (JString status)"
  by (simp add: item_fields_def dict_get_set)

lemma item_fields_other:
  "k \<noteq> ''status'' \<Longrightarrow> k \<noteq> ''notes'' \<Longrightarrow> dict_get (item_fields status notes it) k = dict_get it k"
  by (simp add: item_fields_def dict_get_set)

lemma item_fields_notes:
  "dict_get (item_fields status notes it) ''notes''
     = (if notes = [] then dict_get it ''notes'' else Some (JString notes))"
  by (simp add: item_fields_def dict_get_set)

lemma sprint_status_success:
  assumes ok: "update_sprint_item_status w fs iid status notes
             = (Dumps (JObject ((''success'', JBool True) # rest)), fs')"
  shows "\<exists>v sps sps'. py_get (load_sprints_data fs) ''sprints'' (JArray []) = Inr v
      \<and> py_iter v = Inr sps
      \<and> update_sprints sps iid status notes = Inr (Some sps')
      \<and> fs' = fs(SPRINTS_FILE := Content (assigned_in (load_sprints_data fs) ''sprints'' sps'))"
proof -
  let ?data = "load_sprints_data fs"
  have valid: "status \<in> set valid_statuses"
  proof (rule ccontr)
    assume "status \<notin> set valid_statuses"
    with ok show False by (simp add: update_sprint_item_status_def)
  qed
  obtain v where get: "py_get ?data ''sprints'' (JArray []) = Inr v"
  proof (cases "py_get ?data ''sprints'' (JArray [])")
    case (Inl e)
    with ok valid show ?thesis by (simp add: update_sprint_item_status_def)
  next
    case (Inr v)
    then show ?thesis by (rule that)
  qed
  obtain sps where iter: "py_iter v = Inr sps"
  proof (cases "py_iter v")
    case (Inl e)
    with ok valid get show ?thesis by (simp add: update_sprint_item_status_def)
  next
    case (Inr sps)
    then show ?thesis by (rule that)
  qed
  obtain res where loop: "update_sprints sps iid status notes = Inr res"
  proof (cases "update_sprints sps iid status notes")
    case (Inl e)
    with ok valid get iter show ?thesis by (simp add: update_sprint_item_status_def)
  next
    case (Inr res)
    then show ?thesis by (rule that)
  qed
  obtain sps' where found: "res = Some sps'"
  proof (cases res)
    case None
    with ok valid get iter loop show ?thesis by (simp add: update_sprint_item_status_def)
  next
    case (Some sps')
    then show ?thesis by (rule that)
  qed
  have w: "w"
  proof (rule ccontr)
    assume "\<not> w"
    with ok valid get iter loop found show False
      by (simp add: update_sprint_item_status_def save_sprints_data_def)
  qed
  have "fs' = fs(SPRINTS_FILE := Content (assigned_in ?data ''sprints'' sps'))"
    using ok valid get iter loop found w
    by (simp add: update_sprint_item_status_def save_sprints_data_def)
  with get iter loop found show ?thesis by blast
qed

text \<open>
  Claim C9. Whenever \<^verbatim>\<open>update_sprint_item_status\<close> returns its success payload, the loaded
  document was a mapping with a list of sprints, and the file written is that document
  with one item replaced: the item at the first position, in the order of the two
  loops, whose \<^verbatim>\<open>item_id\<close> matches. In the new item \<open>status\<close> is the given status, \<open>notes\<close>
  is the given notes when they are not empty and what it was when they are, and every
  other field is what it was. The equation for the disk says the rest: every other
  item of that sprint, every other field of that sprint, every other sprint, every
  other top-level key and every other file are as before.
\<close>

theorem sprint_status_update_frame:
  assumes ok: "update_sprint_item_status w fs iid status notes
             = (Dumps (JObject ((''success'', JBool True) # rest)), fs')"
  shows "\<exists>doc sps i sp its j it it'.
      load_sprints_data fs = JObject doc \<and> dict_get doc ''sprints'' = Some (JArray sps)
      \<and> i < length sps \<and> sps ! i = JObject sp \<and> dict_get sp ''items'' = Some (JArray its)
      \<and> j < length its \<and> its ! j = JObject it
      \<and> dict_get it ''item_id'' = Some (JString iid)
      \<and> (\<forall>i'<i. \<forall>x\<in>set (listed_items (sps ! i')). \<not> matches iid x)
      \<and> (\<forall>j'<j. \<not> matches iid (its ! j'))
      \<and> fs' = fs(SPRINTS_FILE := Content (JObject (dict_set ''sprints''
                 (JArray (sps[i := JObject (dict_set ''items''
                    (JArray (its[j := JObject it'])) sp)])) doc)))
      \<and> dict_get it' ''status'' = Some (JString status)
      \<and> (\<forall>k. k \<noteq> ''status'' \<and> k \<noteq> ''notes'' \<longrightarrow> dict_get it' k = dict_get it k)
      \<and> (notes = [] \<longrightarrow> dict_get it' ''notes'' = dict_get it ''notes'')
      \<and> (notes \<noteq> [] \<longrightarrow> dict_get it' ''notes'' = Some (JString notes))"
proof -
  from sprint_status_success[OF ok]
  obtain v sps sps' where get: "py_get (load_sprints_data fs) ''sprints'' (JArray []) = Inr v"
    and iter: "py_iter v = Inr sps"
    and loop: "update_sprints sps iid status notes = Inr (Some sps')"
    and fs': "fs' = fs(SPRINTS_FILE := Content (assigned_in (load_sprints_data fs) ''sprints'' sps'))"
    by blast
  from update_sprints_Some[OF loop]
  obtain i sp its j it where h: "i < length sps" "sps ! i = JObject sp"
      "dict_get sp ''items'' = Some (JArray its)" "j < length its" "its ! j = JObject it"
      "dict_get it ''item_id'' = Some (JString iid)"
      "\<forall>i'<i. \<forall>x\<in>set (listed_items (sps ! i')). \<not> matches iid x"
      "\<forall>j'<j. \<not> matches iid (its ! j')"
      "sps' = sps[i := JObject (dict_set ''items''
                    (JArray (its[j := JObject (item_fields status notes it)])) sp)]"
    by blast
  from listing_of_container[OF get iter h(1) h(2)]
  obtain doc where doc: "load_sprints_data fs = JObject doc"
    "dict_get doc ''sprints'' = Some (JArray sps)"
    "assigned_in (load_sprints_data fs) ''sprints'' sps' = JObject (dict_set ''sprints'' (JArray sps') doc)"
    by blast
  let ?it' = "item_fields status notes it"
  have written: "fs' = fs(SPRINTS_FILE := Content (JObject (dict_set ''sprints''
                 (JArray (sps[i := JObject (dict_set ''items''
                    (JArray (its[j := JObject ?it'])) sp)])) doc)))"
    using fs' doc(3) h(9) by simp
  have f1: "dict_get ?it' ''status'' = Some (JString status)"
    by (rule item_fields_status)
  have f2: "\<forall>k. k \<noteq> ''status'' \<and> k \<noteq> ''notes'' \<longrightarrow> dict_get ?it' k = dict_get it k"
    by (simp add: item_fields_other)
  have f3: "notes = [] \<longrightarrow> dict_get ?it' ''notes'' = dict_get it ''notes''"
    by (simp add: item_fields_notes)
  have f4: "notes \<noteq> [] \<longrightarrow> dict_get ?it' ''notes'' = Some (JString notes)"
    by (simp add: item_fields_notes)
  show ?thesis
    apply (rule exI[of _ doc], rule exI[of _ sps], rule exI[of _ i], rule exI[of _ sp])
    apply (rule exI[of _ its], rule exI[of _ j], rule exI[of _ it], rule exI[of _ ?it'])
    using doc(1,2) h(1-8) written f1 f2 f3 f4 apply (intro conjI)
                  apply assumption+
    done
qed

lemma sample_status_update:
  "update_sprint_item_status True sprints_disk ''s1_item_2'' ''in_progress'' ''''
     = (Dumps (JObject ((''success'', JBool True) #
          [(''message'', JString (''Sprint item 's1_item_2' status updated to '' @ quoted ''in_progress'')),
           (''item_id'', JString ''s1_item_2''),
           (''status'', JString ''in_progress''),
           (''notes'', JString '''')])),
        sprints_disk(SPRINTS_FILE := Content sprints_after))"
  by (simp add: update_sprint_item_status_def load_sprints_data_def save_sprints_data_def
      sprints_disk_def sprints_sample_def sprints_after_def valid_statuses_def quoted_def)

text \<open>
  C9 on the sample document: \<open>s1_item_2\<close> occurs in both sprints, and only the one in the
  first sprint changes; its notes stay, since the call passes none.
\<close>

theorem sprint_status_update_frame_witness:
  "update_sprint_item_status True sprints_disk ''s1_item_2'' ''in_progress'' ''''
     = (Dumps (JObject ((''success'', JBool True) #
          [(''message'', JString (''Sprint item 's1_item_2' status updated to '' @ quoted ''in_progress'')),
           (''item_id'', JString ''s1_item_2''),
           (''status'', JString ''in_progress''),
           (''notes'', JString '''')])),
        sprints_disk(SPRINTS_FILE := Content sprints_after))
   \<and> (\<exists>doc sps i sp its j it it'.
      load_sprints_data sprints_disk = JObject doc \<and> dict_get doc ''sprints'' = Some (JArray sps)
      \<and> i < length sps \<and> sps ! i = JObject sp \<and> dict_get sp ''items'' = Some (JArray its)
      \<and> j < length its \<and> its ! j = JObject it
      \<and> dict_get it ''item_id'' = Some (JString ''s1_item_2'')
      \<and> (\<forall>i'<i. \<forall>x\<in>set (listed_items (sps ! i')). \<not> matches ''s1_item_2'' x)
      \<and> (\<forall>j'<j. \<not> matches ''s1_item_2'' (its ! j'))
      \<and> sprints_disk(SPRINTS_FILE := Content sprints_after)
          = sprints_disk(SPRINTS_FILE := Content (JObject (dict_set ''sprints''
                 (JArray (sps[i := JObject (dict_set ''items''
                    (JArray (its[j := JObject it'])) sp)])) doc)))
      \<and> dict_get it' ''status'' = Some (JString ''in_progress'')
      \<and> (\<forall>k. k \<noteq> ''status'' \<and> k \<noteq> ''notes'' \<longrightarrow> dict_get it' k = dict_get it k)
      \<and> ((''''::string) = [] \<longrightarrow> dict_get it' ''notes'' = dict_get it ''notes'')
      \<and> ((''''::string) \<noteq> [] \<longrightarrow> dict_get it' ''notes'' = Some (JString '''')))"
  by (rule conjI[OF sample_status_update sprint_status_update_frame[OF sample_status_update]])

lemma invalid_status_rejected:
  "status \<notin> set valid_statuses \<Longrightarrow>
   update_sprint_item_status w fs item_id status notes =
     (Dumps (JObject
        [(''error'', JString (''Invalid status '' @ quoted status
            @ ''. Must be one of: ['pending', 'in_progress', 'completed']''))]), fs)"
  by (simp add: update_sprint_item_status_def)

text \<open>
  Claim C2 counts \<open>design_completed\<close> among the accepted statuses. The tool rejects it
  for an item that exists, and writes nothing; with \<open>completed\<close> the same call succeeds.
\<close>

theorem design_completed_is_rejected:
  "update_sprint_item_status True sprints_disk ''s1_item_1'' ''design_completed'' ''''
     = (Dumps (JObject
          [(''error'', JString
             ''Invalid status 'design_completed'. Must be one of: ['pending', 'in_progress', 'completed']'')]),
        sprints_disk)
   \<and> fst (update_sprint_item_status True sprints_disk ''s1_item_1'' ''completed'' '''')
     = Dumps (JObject
          [(''success'', JBool True),
           (''message'', JString (''Sprint item 's1_item_1' status updated to '' @ quoted ''completed'')),
           (''item_id'', JString ''s1_item_1''),
           (''status'', JString ''completed''),
           (''notes'', JString '''')])"
  by (simp add: update_sprint_item_status_def load_sprints_data_def save_sprints_data_def
      sprints_disk_def sprints_sample_def valid_statuses_def quoted_def)

lemma other_item_step:
  "other_item iid x \<Longrightarrow> update_item (x # xs) iid status notes =
     (case update_item xs iid status notes of
        Inl e \<Rightarrow> Inl e
      | Inr None \<Rightarrow> Inr None
      | Inr (Some r) \<Rightarrow> Inr (Some (x # r)))"
  by (cases x) (auto split: option.splits)

lemma update_item_found:
  assumes "j < length its" and "its ! j = JObject it"
    and "dict_get it ''item_id'' = Some (JString iid)"
    and "\<forall>j'<j. other_item iid (its ! j')"
  shows "update_item its iid status notes
           = Inr (Some (its[j := JObject (item_fields status notes it)]))"
  using assms
proof (induction its arbitrary: j)
  case Nil
  then show ?case by simp
next
  case (Cons x xs)
  show ?case
  proof (cases j)
    case 0
    with Cons.prems show ?thesis by (simp add: item_fields_def Let_def)
  next
    case (Suc n)
    from Cons.prems(4) Suc have x: "other_item iid x" by (metis nth_Cons_0 zero_less_Suc)
    have earlier: "\<forall>j'<n. other_item iid (xs ! j')"
    proof (intro allI impI)
      fix j' assume "j' < n"
      then have "Suc j' < j" using Suc by simp
      with Cons.prems(4) show "other_item iid (xs ! j')" by fastforce
    qed
    have "update_item xs iid status notes
           = Inr (Some (xs[n := JObject (item_fields status notes it)]))"
      using Cons.IH[of n] Cons.prems Suc earlier by simp
    then show ?thesis using other_item_step[OF x] Suc by simp
  qed
qed

lemma update_item_absent:
  "list_all (other_item iid) its \<Longrightarrow> update_item its iid status notes = Inr None"
proof (induction its)
  case Nil
  then show ?case by simp
next
  case (Cons x xs)
  then show ?case using other_item_step[of iid x xs status "notes"] by simp
qed

lemma sprint_without_step:
  assumes "sprint_without iid x"
  shows "update_sprints (x # xs) iid status notes =
     (case update_sprints xs iid status notes of
        Inl e \<Rightarrow> Inl e
      | Inr None \<Rightarrow> Inr None
      | Inr (Some r) \<Rightarrow> Inr (Some (x # r)))"
proof -
  from assms obtain sp its where x: "x = JObject sp" "dict_get sp ''items'' = Some (JArray its)"
    "list_all (other_item iid) its"
    by (cases x) (auto split: option.splits json.splits)
  from update_item_absent[OF x(3)] x(1,2) show ?thesis
    by (simp split: sum.splits option.splits)
qed

lemma update_sprints_found:
  assumes "i < length sps" and "sps ! i = JObject sp"
    and "dict_get sp ''items'' = Some (JArray its)"
    and "j < length its" and "its ! j = JObject it"
    and "dict_get it ''item_id'' = Some (JString iid)"
    and "\<forall>i'<i. sprint_without iid (sps ! i')"
    and "\<forall>j'<j. other_item iid (its ! j')"
  shows "update_sprints sps iid status notes
           = Inr (Some (sps[i := JObject (dict_set ''items''
                   (JArray (its[j := JObject (item_fields status notes it)])) sp)]))"
  using assms(1,2,7)
proof (induction sps arbitrary: i)
  case Nil
  then show ?case by simp
next
  case (Cons x xs)
  note inner = update_item_found[OF assms(4) assms(5) assms(6) assms(8), of status "notes"]
  show ?case
  proof (cases i)
    case 0
    with Cons.prems assms(3) inner show ?thesis by simp
  next
    case (Suc n)
    from Cons.prems(3) Suc have x: "sprint_without iid x" by (metis nth_Cons_0 zero_less_Suc)
    have earlier: "\<forall>i'<n. sprint_without iid (xs ! i')"
    proof (intro allI impI)
      fix i' assume "i' < n"
      then have "Suc i' < i" using Suc by simp
      with Cons.prems(3) show "sprint_without iid (xs ! i')" by fastforce
    qed
    have "update_sprints xs iid status notes
           = Inr (Some (xs[n := JObject (dict_set ''items''
                   (JArray (its[j := JObject (item_fields status notes it)])) sp)]))"
      using Cons.IH[of n] Cons.prems Suc earlier by simp
    then show ?thesis using sprint_without_step[OF x] Suc by simp
  qed
qed

lemma sprints_run:
  assumes "load_sprints_data fs = JObject doc"
    and "dict_get doc ''sprints'' = Some (JArray sps)"
    and "status \<in> set valid_statuses"
    and "update_sprints sps iid status notes = Inr (Some sps')"
  shows "update_sprint_item_status True fs iid status notes =
     (Dumps (JObject
        [(''success'', JBool True),
         (''message'', JString (''Sprint item '' @ quoted iid
             @ '' status updated to '' @ quoted status)),
         (''item_id'', JString iid),
         (''status'', JString status),
         (''notes'', JString notes)]),
      fs(SPRINTS_FILE := Content (JObject (dict_set ''sprints'' (JArray sps') doc))))"
  using assms by (simp add: update_sprint_item_status_def save_sprints_data_def)

text \<open>
  Claim C2, as amended: the fixed enumeration is \<open>pending\<close>, \<open>in_progress\<close>, \<open>completed\<close>.
  On a sprints document that is a mapping with a list of sprints, every status outside
  it is answered with the validation error and the files are unchanged; every status
  inside it, applied to an item id that the document holds (the sprints before the
  item's being records whose items are records with other ids, and likewise the items
  before it), succeeds when the write goes through, and the stored item has that status.
\<close>

theorem status_validation:
  assumes doc: "load_sprints_data fs = JObject doc"
    and sps: "dict_get doc ''sprints'' = Some (JArray sps)"
  shows "(status \<notin> set [''pending'', ''in_progress'', ''completed''] \<longrightarrow>
            update_sprint_item_status w fs iid status notes =
              (Dumps (JObject
                 [(''error'', JString (''Invalid status '' @ quoted status
                     @ ''. Must be one of: ['pending', 'in_progress', 'completed']''))]), fs))
       \<and> (status \<in> set [''pending'', ''in_progress'', ''completed''] \<longrightarrow>
            (\<forall>i sp its j it.
               i < length sps \<and> sps ! i = JObject sp
               \<and> dict_get sp ''items'' = Some (JArray its)
               \<and> j < length its \<and> its ! j = JObject it
               \<and> dict_get it ''item_id'' = Some (JString iid)
               \<and> (\<forall>i'<i. sprint_without iid (sps ! i'))
               \<and> (\<forall>j'<j. other_item iid (its ! j')) \<longrightarrow>
               (\<exists>it'. update_sprint_item_status True fs iid status notes =
                  (Dumps (JObject
                     [(''success'', JBool True),
                      (''message'', JString (''Sprint item '' @ quoted iid
                          @ '' status updated to '' @ quoted status)),
                      (''item_id'', JString iid),
                      (''status'', JString status),
                      (''notes'', JString notes)]),
                   fs(SPRINTS_FILE := Content (JObject (dict_set ''sprints''
                        (JArray (sps[i := JObject (dict_set ''items''
                           (JArray (its[j := JObject it'])) sp)])) doc))))
                 \<and> dict_get it' ''status'' = Some (JString status))))"
proof (intro conjI impI allI)
  assume "status \<notin> set [''pending'', ''in_progress'', ''completed'']"
  then have "status \<notin> set valid_statuses" by (simp add: valid_statuses_def)
  then show "update_sprint_item_status w fs iid status notes =
              (Dumps (JObject
                 [(''error'', JString (''Invalid status '' @ quoted status
                     @ ''. Must be one of: ['pending', 'in_progress', 'completed']''))]), fs)"
    by (rule invalid_status_rejected)
next
  fix i sp its j it
  assume "status \<in> set [''pending'', ''in_progress'', ''completed'']"
  then have valid: "status \<in> set valid_statuses" by (simp add: valid_statuses_def)
  assume hit: "i < length sps \<and> sps ! i = JObject sp
               \<and> dict_get sp ''items'' = Some (JArray its)
               \<and> j < length its \<and> its ! j = JObject it
               \<and> dict_get it ''item_id'' = Some (JString iid)
               \<and> (\<forall>i'<i. sprint_without iid (sps ! i'))
               \<and> (\<forall>j'<j. other_item iid (its ! j'))"
  let ?it' = "item_fields status notes it"
  have loop: "update_sprints sps iid status notes
           = Inr (Some (sps[i := JObject (dict_set ''items''
                   (JArray (its[j := JObject ?it'])) sp)]))"
    using hit update_sprints_found[of i sps sp its j it iid status "notes"] by blast
  have run: "update_sprint_item_status True fs iid status notes =
                  (Dumps (JObject
                     [(''success'', JBool True),
                      (''message'', JString (''Sprint item '' @ quoted iid
                          @ '' status updated to '' @ quoted status)),
                      (''item_id'', JString iid),
                      (''status'', JString status),
                      (''notes'', JString notes)]),
                   fs(SPRINTS_FILE := Content (JObject (dict_set ''sprints''
                        (JArray (sps[i := JObject (dict_set ''items''
                           (JArray (its[j := JObject ?it'])) sp)])) doc))))"
    by (rule sprints_run[OF doc sps valid loop])
  have "dict_get ?it' ''status'' = Some (JString status)" by (rule item_fields_status)
  with run show "\<exists>it'. update_sprint_item_status True fs iid status notes =
                  (Dumps (JObject
                     [(''success'', JBool True),
                      (''message'', JString (''Sprint item '' @ quoted iid
                          @ '' status updated to '' @ quoted status)),
                      (''item_id'', JString iid),
                      (''status'', JString status),
                      (''notes'', JString notes)]),
                   fs(SPRINTS_FILE := Content (JObject (dict_set ''sprints''
                        (JArray (sps[i := JObject (dict_set ''items''
                           (JArray (its[j := JObject it'])) sp)])) doc))))
                 \<and> dict_get it' ''status'' = Some (JString status)"
    by (intro exI[of _ ?it'] conjI)
qed

text \<open>The amended C2 on the sample document, with \<open>archived\<close> outside and \<open>completed\<close> inside.\<close>

theorem status_validation_witness:
  "load_sprints_data sprints_disk = sprints_sample
   \<and> update_sprint_item_status True sprints_disk ''s1_item_2'' ''archived'' ''shipped''
     = (Dumps (JObject
          [(''error'', JString (''Invalid status '' @ quoted ''archived''
              @ ''. Must be one of: ['pending', 'in_progress', 'completed']''))]), sprints_disk)
   \<and> (\<exists>it'. update_sprint_item_status True sprints_disk ''s1_item_2'' ''completed'' ''shipped''
        = (Dumps (JObject
             [(''success'', JBool True),
              (''message'', JString (''Sprint item '' @ quoted ''s1_item_2''
                  @ '' status updated to '' @ quoted ''completed'')),
              (''item_id'', JString ''s1_item_2''),
              (''status'', JString ''completed''),
              (''notes'', JString ''shipped'')]),
           sprints_disk(SPRINTS_FILE := Content (JObject
             [(''sprints'', JArray
                [JObject [(''sprint_id'', JString ''sprint_1''),
                          (''items'', JArray
                             [JObject [(''item_id'', JString ''s1_item_1''),
                                       (''status'', JString ''pending''),
                                       (''notes'', JString ''first draft'')],
                              JObject it'])],
                 JObject [(''sprint_id'', JString ''sprint_2''),
                          (''items'', JArray
                             [JObject [(''item_id'', JString ''s1_item_2''),
                                       (''status'', JString ''pending'')]])]]),
              (''sprint_analysis'', JObject [(''velocity'', JInt 3)])])))
      \<and> dict_get it' ''status'' = Some (JString ''completed''))"
proof -
  let ?its = "[JObject [(''item_id'', JString ''s1_item_1''), (''status'', JString ''pending''),
                        (''notes'', JString ''first draft'')],
               JObject [(''item_id'', JString ''s1_item_2''), (''status'', JString ''pending''),
                        (''notes'', JString ''call back'')]]"
  let ?sp = "[(''sprint_id'', JString ''sprint_1''), (''items'', JArray ?its)]"
  let ?sps = "[JObject ?sp,
               JObject [(''sprint_id'', JString ''sprint_2''),
                  (''items'', JArray
                     [JObject [(''item_id'', JString ''s1_item_2''), (''status'', JString ''pending'')]])]]"
  let ?doc = "[(''sprints'', JArray ?sps), (''sprint_analysis'', JObject [(''velocity'', JInt 3)])]"
  let ?it = "[(''item_id'', JString ''s1_item_2''), (''status'', JString ''pending''),
              (''notes'', JString ''call back'')]"
  have doc: "load_sprints_data sprints_disk = JObject ?doc"
    by (simp add: load_sprints_data_def sprints_disk_def sprints_sample_def)
  have sps: "dict_get ?doc ''sprints'' = Some (JArray ?sps)" by simp
  have out: "''archived'' \<notin> set [''pending'', ''in_progress'', ''completed'']" by simp
  have inside: "''completed'' \<in> set [''pending'', ''in_progress'', ''completed'']" by simp
  have hit: "(0::nat) < length ?sps \<and> ?sps ! 0 = JObject ?sp
               \<and> dict_get ?sp ''items'' = Some (JArray ?its)
               \<and> (1::nat) < length ?its \<and> ?its ! 1 = JObject ?it
               \<and> dict_get ?it ''item_id'' = Some (JString ''s1_item_2'')
               \<and> (\<forall>i'<0. sprint_without ''s1_item_2'' (?sps ! i'))
               \<and> (\<forall>j'<1. other_item ''s1_item_2'' (?its ! j'))"
    by simp
  have rejected: "update_sprint_item_status True sprints_disk ''s1_item_2'' ''archived'' ''shipped''
     = (Dumps (JObject
          [(''error'', JString (''Invalid status '' @ quoted ''archived''
              @ ''. Must be one of: ['pending', 'in_progress', 'completed']''))]), sprints_disk)"
    by (rule status_validation[OF doc sps, of "''archived''" True "''s1_item_2''" "''shipped''",
          THEN conjunct1, THEN mp, OF out])
  have "\<exists>it'. update_sprint_item_status True sprints_disk ''s1_item_2'' ''completed'' ''shipped''
        = (Dumps (JObject
             [(''success'', JBool True),
              (''message'', JString (''Sprint item '' @ quoted ''s1_item_2''
                  @ '' status updated to '' @ quoted ''completed'')),
              (''item_id'', JString ''s1_item_2''),
              (''status'', JString ''completed''),
              (''notes'', JString ''shipped'')]),
           sprints_disk(SPRINTS_FILE := Content (JObject (dict_set ''sprints''
                        (JArray (?sps[0 := JObject (dict_set ''items''
                           (JArray (?its[1 := JObject it'])) ?sp)])) ?doc))))
      \<and> dict_get it' ''status'' = Some (JString ''completed'')"
    by (rule status_validation[OF doc sps, of "''completed''" True "''s1_item_2''" "''shipped''",
          THEN conjunct2, THEN mp, OF inside, THEN spec, THEN spec, THEN spec, THEN spec,
          THEN spec, THEN mp, OF hit])
  then have accepted: "\<exists>it'. update_sprint_item_status True sprints_disk ''s1_item_2'' ''completed'' ''shipped''
        = (Dumps (JObject
             [(''success'', JBool True),
              (''message'', JString (''Sprint item '' @ quoted ''s1_item_2''
                  @ '' status updated to '' @ quoted ''completed'')),
              (''item_id'', JString ''s1_item_2''),
              (''status'', JString ''completed''),
              (''notes'', JString ''shipped'')]),
           sprints_disk(SPRINTS_FILE := Content (JObject
             [(''sprints'', JArray
                [JObject [(''sprint_id'', JString ''sprint_1''),
                          (''items'', JArray
                             [JObject [(''item_id'', JString ''s1_item_1''),
                                       (''status'', JString ''pending''),
                                       (''notes'', JString ''first draft'')],
                              JObject it'])],
                 JObject [(''sprint_id'', JString ''sprint_2''),
                          (''items'', JArray
                             [JObject [(''item_id'', JString ''s1_item_2''),
                                       (''status'', JString ''pending'')]])]]),
              (''sprint_analysis'', JObject [(''velocity'', JInt 3)])])))
      \<and> dict_get it' ''status'' = Some (JString ''completed'')"
    by simp
  have loaded: "load_sprints_data sprints_disk = sprints_sample"
    by (simp add: load_sprints_data_def sprints_disk_def)
  from loaded rejected accepted show ?thesis by (intro conjI)
qed

section \<open>Initialising a session\<close>











lemma websocket_session_registered:
  "websocket_session create_session server_after ''s1'' ''s1_item_1'' = (None, server_after)"
  by (simp add: websocket_session_def server_after_def)

section \<open>Relaying a turn\<close>

text \<open>
  What the relay does on every run: a text it sends is a terminal text or a streamed
  chunk of the coordinator, and a run that has a final event of the coordinator with a
  text ends with the completion marker.
\<close>

lemma relay_sends:
  "m \<in> set (relay evs ending) \<Longrightarrow>
   terminal m \<or> (\<exists>ev\<in>set evs. partial ev \<and> text_chunk ev = Some m)"
proof (induction evs)
  case Nil
  then show ?case by (cases ending) (simp_all add: terminal_def)
next
  case (Cons ev evs)
  then show ?case
    by (cases "text_chunk ev") (auto simp: terminal_def split: if_splits)
qed

lemma relay_completes:
  assumes "ev \<in> set evs" and "text_chunk ev \<noteq> None" and "\<not> partial ev"
    and "is_final_response ev"
  shows "relay evs ending \<noteq> [] \<and> last (relay evs ending) = ''--streaming ended--''"
  using assms(1)
proof (induction evs)
  case Nil
  then show ?case by simp
next
  case (Cons x xs)
  show ?case
  proof (cases "x = ev")
    case True
    with assms(2-4) show ?thesis by auto
  next
    case False
    with Cons have "relay xs ending \<noteq> [] \<and> last (relay xs ending) = ''--streaming ended--''"
      by simp
    then show ?thesis by (cases "text_chunk x") auto
  qed
qed

text \<open>
  Claim C6 says that every turn delivers exactly one terminal event. The marker is sent
  only for a final event of the coordinator that carries a text, and nothing is sent
  after the loop: in a turn whose final event has no text, the client gets the chunk and
  no terminal event.
\<close>

theorem turn_without_terminal_event:
  "stream_agent_response_websocket True silent_turn None = [''Working'']
   \<and> filter terminal (stream_agent_response_websocket True silent_turn None) = []"
  by (simp add: stream_agent_response_websocket_def silent_turn_def text_chunk_def terminal_def)

end
